theory Spec2Isabelle
  imports Main "HOL-Library.AList"
begin

section \<open>The topology model (package manager, as the driver uses it)\<close>

text \<open>
  Modelled from the spec: the declarations of package \<open>manager\<close> are not part of the
  sources at hand. \<open>DeployType\<close>, \<open>DeployComponent\<close> and \<open>EnvType\<close> are string
  types there; the constants the code names are the constructors below, and
  \<open>_other s\<close> stands for any value \<open>s\<close> different from the named constants (it is what
  the \<open>default\<close> branches of the switches see, printed with \<open>%s\<close>).
\<close>

datatype DeployType = DeployType_Service | DeployType_Task | DeployType_other string

datatype DeployComponent =
    DeployComponent_Ceramic | DeployComponent_Ipfs | DeployComponent_Cas
  | DeployComponent_other string

datatype EnvType = EnvType_Prod | EnvType_other string

text \<open>
  Modelled from the spec: \<open>Layout\<close>, \<open>Cluster\<close>, \<open>TaskSet\<close> and \<open>Task\<close> with the
  fields the driver reads and writes. A Go map is an association list in the order in
  which \<open>range\<close> visits its entries (an order the runtime chooses, so a property of
  the code is one that holds for every order). The pointers stored in the maps are the
  records they point to; the two optional task sets of a cluster are \<open>None\<close> when the
  pointer is \<open>nil\<close>.
\<close>

record Task =
  Task_Repo :: string
  Task_Temp :: bool
  Task_Id :: string

record TaskSet =
  TaskSet_Repo :: string
  TaskSet_Tasks :: "(string \<times> Task) list"

record Cluster =
  Cluster_Repo :: string
  Cluster_ServiceTasks :: "TaskSet option"
  Cluster_Tasks :: "TaskSet option"

record Layout =
  Layout_Repo :: string
  Layout_Clusters :: "(string \<times> Cluster) list"

text \<open>The zero value of \<open>manager.Task\<close>, written \<open>{}\<close> in the map literals.\<close>

definition Task_zero :: Task where
  "Task_zero = \<lparr>Task_Repo = [], Task_Temp = False, Task_Id = []\<rparr>"

section \<open>The container platform (aws-sdk-go-v2 ecs client)\<close>

text \<open>
  A Go function of this program either returns (a value, or an \<open>error\<close> whose message
  is a string) or panics (an index out of range, a nil pointer dereferenced).
\<close>

datatype failure = Error string | Panic

text \<open>The parts of the SDK's types that the code reads. A \<open>*string\<close> is an option.\<close>

record Failure =
  Failure_Arn :: "string option"
  Failure_Detail :: "string option"
  Failure_Reason :: "string option"

record ecsFailure =
  arn :: string
  detail :: string
  reason :: string

record ServiceDeployment =
  Deployment_TaskDefinition :: "string option"
  Deployment_RunningCount :: int

record Service =
  Service_TaskDefinition :: "string option"
  Service_Deployments :: "ServiceDeployment list"

record DescribeServicesOutput =
  Output_Failures :: "Failure list"
  Output_Services :: "Service list"

record ContainerDefinition =
  Container_Image :: "string option"
  Container_Rest :: string

text \<open>
  A task definition: its containers, its family, and \<open>TaskDef_Settings\<close> for the
  fourteen further fields that \<open>updateEcsTaskDefinition\<close> copies unchanged into the
  registration (Cpu, EphemeralStorage, ExecutionRoleArn, ..., Volumes).
\<close>

record TaskDefinition =
  TaskDef_ContainerDefinitions :: "ContainerDefinition list"
  TaskDef_Family :: "string option"
  TaskDef_Settings :: string

text \<open>
  Every call of the client is recorded, oldest first. The platform's answer to a call
  is a function of the calls made before it and of the call's arguments: this is any
  deterministic platform, and any single run of a nondeterministic one. A registration
  is recorded with its input and the environment \<open>e.env\<close> whose name is the value of
  its single tag (the tag's key is the constant \<open>manager.ResourceTag\<close>).
\<close>

datatype ecs_call =
    Call_DescribeServices string string
  | Call_DescribeTaskDefinition string
  | Call_RegisterTaskDefinition TaskDefinition EnvType
  | Call_UpdateService string string string
  | Call_ListTaskDefinitions string
  | Call_ListTasks string string
  | Call_StopTask string string
  | Call_DescribeTasks string "string list"

type_synonym world = "ecs_call list"

record EcsClient =
  DescribeServices :: "world \<Rightarrow> string \<Rightarrow> string \<Rightarrow> string + DescribeServicesOutput"
  DescribeTaskDefinition :: "world \<Rightarrow> string \<Rightarrow> string + TaskDefinition"
  RegisterTaskDefinition :: "world \<Rightarrow> TaskDefinition \<Rightarrow> EnvType \<Rightarrow> string + string option"
  UpdateService :: "world \<Rightarrow> string \<Rightarrow> string \<Rightarrow> string \<Rightarrow> string option"
  ListTaskDefinitions :: "world \<Rightarrow> string \<Rightarrow> string + string list"
  ListTasks :: "world \<Rightarrow> string \<Rightarrow> string \<Rightarrow> string + string list"
  StopTask :: "world \<Rightarrow> string \<Rightarrow> string \<Rightarrow> string option"
  DescribeTasks :: "world \<Rightarrow> string \<Rightarrow> string list \<Rightarrow> string + string option list"

text \<open>
  The answers: \<open>Inl msg\<close> is the client's error. \<open>RegisterTaskDefinition\<close> answers
  with the pointer to the new definition's ARN, \<open>UpdateService\<close> and \<open>StopTask\<close>
  with an error or none, \<open>ListTaskDefinitions\<close> and \<open>ListTasks\<close> with ARNs,
  \<open>DescribeTasks\<close> with the \<open>LastStatus\<close> pointer of each task found.
\<close>

record Ecs =
  ecsClient :: EcsClient
  env :: EnvType
  ecrUri :: string

section \<open>The driver (type Ecs)\<close>

text \<open>
  Each function of the source is the constant of its name; a loop is the function
  named after its function with the suffix \<open>_range\<close> (in deploy.go, after what it
  ranges over). Every function takes the calls made so far and returns them with its
  own added. Where a name of the source is a constant of HOL or a field of a record
  here, the model writes \<open>img\<close> for \<open>image\<close>, \<open>newId\<close> for \<open>id\<close>, \<open>j\<close> for the
  receiver \<open>d\<close> of the job's methods, and \<open>d0\<close>, \<open>db0\<close> for the parameters \<open>d\<close>
  and \<open>db\<close>. The deadline of five seconds on every call of the client shows as an
  error answered by the client.
\<close>

subsection \<open>parseEcsFailures, and the message of \<open>fmt.Errorf("%v", ecsFailures)\<close>\<close>

definition parseEcsFailure :: "Failure \<Rightarrow> ecsFailure" where
  "parseEcsFailure f =
     \<lparr>arn = (case Failure_Arn f of None \<Rightarrow> [] | Some a \<Rightarrow> a),
      detail = (case Failure_Detail f of None \<Rightarrow> [] | Some d \<Rightarrow> d),
      reason = (case Failure_Reason f of None \<Rightarrow> [] | Some r \<Rightarrow> r)\<rparr>"

definition parseEcsFailures :: "Failure list \<Rightarrow> ecsFailure list" where
  "parseEcsFailures ecsFailures = map parseEcsFailure ecsFailures"

fun join_space :: "string list \<Rightarrow> string" where
  "join_space [] = []"
| "join_space [x] = x"
| "join_space (x # y # ys) = x @ '' '' @ join_space (y # ys)"

definition ecsFailure_text :: "ecsFailure \<Rightarrow> string" where
  "ecsFailure_text f = ''{'' @ arn f @ '' '' @ detail f @ '' '' @ reason f @ ''}''"

definition ecsFailures_text :: "ecsFailure list \<Rightarrow> string" where
  "ecsFailures_text fs = ''['' @ join_space (map ecsFailure_text fs) @ '']''"

subsection \<open>The check phase\<close>

text \<open>
  The loop of \<open>checkEcsService\<close> over the deployments of the service: the first
  deployment of the wanted definition with a running task answers \<open>true\<close>.
\<close>

fun checkEcsService_range :: "ServiceDeployment list \<Rightarrow> string \<Rightarrow> failure + bool" where
  "checkEcsService_range [] taskDefArn = Inr False"
| "checkEcsService_range (deployment # rest) taskDefArn =
     (case Deployment_TaskDefinition deployment of
        None \<Rightarrow> Inl Panic
      | Some td \<Rightarrow>
          if td = taskDefArn \<and> Deployment_RunningCount deployment > 0 then Inr True
          else checkEcsService_range rest taskDefArn)"

definition checkEcsService ::
  "Ecs \<Rightarrow> string \<Rightarrow> string \<Rightarrow> string \<Rightarrow> world \<Rightarrow> (failure + bool) \<times> world" where
  "checkEcsService e cluster service taskDefArn w =
     (let w1 = w @ [Call_DescribeServices cluster service] in
      case DescribeServices (ecsClient e) w cluster service of
        Inl err \<Rightarrow> (Inl (Error err), w1)
      | Inr descOutput \<Rightarrow>
          if length (Output_Failures descOutput) > 0
          then (Inl (Error (ecsFailures_text (parseEcsFailures (Output_Failures descOutput)))), w1)
          else (case Output_Services descOutput of
                  [] \<Rightarrow> (Inl Panic, w1)
                | s # _ \<Rightarrow> (checkEcsService_range (Service_Deployments s) taskDefArn, w1)))"

text \<open>The loop of \<open>CheckTask\<close>: every task found is in the wanted state.\<close>

fun CheckTask_range :: "string option list \<Rightarrow> string \<Rightarrow> failure + bool" where
  "CheckTask_range [] checkStatus = Inr True"
| "CheckTask_range (lastStatus # rest) checkStatus =
     (case lastStatus of
        None \<Rightarrow> Inl Panic
      | Some s \<Rightarrow> if s \<noteq> checkStatus then Inr False else CheckTask_range rest checkStatus)"

definition CheckTask ::
  "Ecs \<Rightarrow> bool \<Rightarrow> string \<Rightarrow> string list \<Rightarrow> world \<Rightarrow> (failure + bool) \<times> world" where
  "CheckTask e running cluster taskArn w =
     (let w1 = w @ [Call_DescribeTasks cluster taskArn] in
      case DescribeTasks (ecsClient e) w cluster taskArn of
        Inl err \<Rightarrow> (Inl (Error err), w1)
      | Inr tasks \<Rightarrow>
          (let checkStatus = (if running then ''RUNNING'' else ''STOPPED'') in
           if length tasks > 0 then (CheckTask_range tasks checkStatus, w1)
           else (Inr False, w1)))"

text \<open>
  The loop of \<open>checkEnvTaskSet\<close> over the tasks of a task set. For a service the
  three branches of the body all return; for a plain task the body returns unless the
  task is transient.
\<close>

fun checkEnvTaskSet_range ::
  "Ecs \<Rightarrow> (string \<times> Task) list \<Rightarrow> DeployType \<Rightarrow> string \<Rightarrow> world \<Rightarrow> (failure + bool) \<times> world" where
  "checkEnvTaskSet_range e [] deployType cluster w = (Inr True, w)"
| "checkEnvTaskSet_range e ((taskSetName, task) # rest) deployType cluster w =
     (case deployType of
        DeployType_Service \<Rightarrow>
          (case checkEcsService e cluster taskSetName (Task_Id task) w of
             (Inl err, w1) \<Rightarrow> (Inl err, w1)
           | (Inr deployed, w1) \<Rightarrow>
               if \<not> deployed then (Inr False, w1) else (Inr True, w1))
      | DeployType_Task \<Rightarrow>
          if \<not> Task_Temp task then
            (case CheckTask e True cluster [taskSetName, Task_Id task] w of
               (Inl err, w1) \<Rightarrow> (Inl err, w1)
             | (Inr deployed, w1) \<Rightarrow>
                 if \<not> deployed then (Inr False, w1) else (Inr True, w1))
          else checkEnvTaskSet_range e rest deployType cluster w
      | DeployType_other s \<Rightarrow>
          (Inl (Error (''updateTaskSet: invalid deploy type: '' @ s)), w))"

definition checkEnvTaskSet ::
  "Ecs \<Rightarrow> TaskSet option \<Rightarrow> DeployType \<Rightarrow> string \<Rightarrow> world \<Rightarrow> (failure + bool) \<times> world" where
  "checkEnvTaskSet e taskSet deployType cluster w =
     (case taskSet of
        None \<Rightarrow> (Inr True, w)
      | Some ts \<Rightarrow> checkEnvTaskSet_range e (TaskSet_Tasks ts) deployType cluster w)"

definition checkEnvCluster ::
  "Ecs \<Rightarrow> Cluster \<Rightarrow> string \<Rightarrow> world \<Rightarrow> (failure + bool) \<times> world" where
  "checkEnvCluster e cluster clusterName w =
     (case checkEnvTaskSet e (Cluster_ServiceTasks cluster) DeployType_Service clusterName w of
        (Inl err, w1) \<Rightarrow> (Inl err, w1)
      | (Inr deployed, w1) \<Rightarrow>
          if \<not> deployed then (Inr False, w1)
          else (case checkEnvTaskSet e (Cluster_Tasks cluster) DeployType_Task clusterName w1 of
                  (Inl err, w2) \<Rightarrow> (Inl err, w2)
                | (Inr deployed2, w2) \<Rightarrow> (Inr deployed2, w2)))"

fun CheckEnv_range ::
  "Ecs \<Rightarrow> (string \<times> Cluster) list \<Rightarrow> world \<Rightarrow> (failure + bool) \<times> world" where
  "CheckEnv_range e [] w = (Inr True, w)"
| "CheckEnv_range e ((clusterName, cluster) # rest) w =
     (case checkEnvCluster e cluster clusterName w of
        (Inl err, w1) \<Rightarrow> (Inl err, w1)
      | (Inr deployed, w1) \<Rightarrow>
          if \<not> deployed then (Inr False, w1) else CheckEnv_range e rest w1)"

definition CheckEnv :: "Ecs \<Rightarrow> Layout \<Rightarrow> world \<Rightarrow> (failure + bool) \<times> world" where
  "CheckEnv e layout w = CheckEnv_range e (Layout_Clusters layout) w"

subsection \<open>The update phase\<close>

definition describeEcsService ::
  "Ecs \<Rightarrow> string \<Rightarrow> string \<Rightarrow> world \<Rightarrow> (failure + DescribeServicesOutput) \<times> world" where
  "describeEcsService e cluster service w =
     (let w1 = w @ [Call_DescribeServices cluster service] in
      case DescribeServices (ecsClient e) w cluster service of
        Inl err \<Rightarrow> (Inl (Error err), w1)
      | Inr output \<Rightarrow>
          if length (Output_Failures output) > 0
          then (Inl (Error (ecsFailures_text (parseEcsFailures (Output_Failures output)))), w1)
          else (Inr output, w1))"

text \<open>
  Register a copy of the definition \<open>taskDefArn\<close> whose first container runs
  \<open>e.ecrUri + image\<close>. Writing the image of container 0 panics when the definition has
  no container, and so does reading the ARN through a nil pointer of the answer.
\<close>

definition updateEcsTaskDefinition ::
  "Ecs \<Rightarrow> string \<Rightarrow> string \<Rightarrow> world \<Rightarrow> (failure + string) \<times> world" where
  "updateEcsTaskDefinition e taskDefArn img w =
     (let w1 = w @ [Call_DescribeTaskDefinition taskDefArn] in
      case DescribeTaskDefinition (ecsClient e) w taskDefArn of
        Inl err \<Rightarrow> (Inl (Error err), w1)
      | Inr taskDef \<Rightarrow>
          (case TaskDef_ContainerDefinitions taskDef of
             [] \<Rightarrow> (Inl Panic, w1)
           | c # cs \<Rightarrow>
               (let regTaskDefInput =
                      taskDef\<lparr>TaskDef_ContainerDefinitions :=
                                 c\<lparr>Container_Image := Some (ecrUri e @ img)\<rparr> # cs\<rparr>;
                    w2 = w1 @ [Call_RegisterTaskDefinition regTaskDefInput (env e)] in
                case RegisterTaskDefinition (ecsClient e) w1 regTaskDefInput (env e) of
                  Inl err \<Rightarrow> (Inl (Error err), w2)
                | Inr None \<Rightarrow> (Inl Panic, w2)
                | Inr (Some newArn) \<Rightarrow> (Inr newArn, w2))))"

fun stopEcsTasks_range ::
  "Ecs \<Rightarrow> string \<Rightarrow> string list \<Rightarrow> world \<Rightarrow> failure option \<times> world" where
  "stopEcsTasks_range e cluster [] w = (None, w)"
| "stopEcsTasks_range e cluster (taskArn # rest) w =
     (let w1 = w @ [Call_StopTask taskArn cluster] in
      case StopTask (ecsClient e) w taskArn cluster of
        Some err \<Rightarrow> (Some (Error err), w1)
      | None \<Rightarrow> stopEcsTasks_range e cluster rest w1)"

definition stopEcsTasks ::
  "Ecs \<Rightarrow> string \<Rightarrow> string \<Rightarrow> world \<Rightarrow> failure option \<times> world" where
  "stopEcsTasks e cluster family w =
     (let w1 = w @ [Call_ListTasks cluster family] in
      case ListTasks (ecsClient e) w cluster family of
        Inl err \<Rightarrow> (Some (Error err), w1)
      | Inr taskArns \<Rightarrow> stopEcsTasks_range e cluster taskArns w1)"

text \<open>
  \<open>updateEcsService\<close> drops the errors of its first two calls. After a failed
  \<open>describeEcsService\<close> the output is nil and reading its first service panics, as it
  does for an output without a service or a service without a task definition. After a
  failed \<open>updateEcsTaskDefinition\<close> the new ARN is the empty string and the service is
  updated to it.
\<close>

definition updateEcsService ::
  "Ecs \<Rightarrow> string \<Rightarrow> string \<Rightarrow> string \<Rightarrow> bool \<Rightarrow> world \<Rightarrow> (failure + string) \<times> world" where
  "updateEcsService e cluster service img transientTask w =
     (case describeEcsService e cluster service w of
        (Inl err, w1) \<Rightarrow> (Inl Panic, w1)
      | (Inr descSvcOutput, w1) \<Rightarrow>
          (case Output_Services descSvcOutput of
             [] \<Rightarrow> (Inl Panic, w1)
           | s # _ \<Rightarrow>
               (case Service_TaskDefinition s of
                  None \<Rightarrow> (Inl Panic, w1)
                | Some taskDefArn \<Rightarrow>
                    (case updateEcsTaskDefinition e taskDefArn img w1 of
                       (Inl Panic, w2) \<Rightarrow> (Inl Panic, w2)
                     | (r, w2) \<Rightarrow>
                         (let newTaskDefArn = (case r of Inr a \<Rightarrow> a | Inl err \<Rightarrow> []);
                              w3 = w2 @ [Call_UpdateService cluster service newTaskDefArn] in
                          case UpdateService (ecsClient e) w2 cluster service newTaskDefArn of
                            Some err \<Rightarrow> (Inl (Error err), w3)
                          | None \<Rightarrow>
                              if \<not> transientTask then
                                (case stopEcsTasks e cluster service w3 of
                                   (Some err, w4) \<Rightarrow> (Inl err, w4)
                                 | (None, w4) \<Rightarrow> (Inr newTaskDefArn, w4))
                              else (Inr newTaskDefArn, w3))))))"

definition updateEcsTask ::
  "Ecs \<Rightarrow> string \<Rightarrow> string \<Rightarrow> string \<Rightarrow> bool \<Rightarrow> world \<Rightarrow> (failure + string) \<times> world" where
  "updateEcsTask e cluster family img transientTask w =
     (let w1 = w @ [Call_ListTaskDefinitions family] in
      case ListTaskDefinitions (ecsClient e) w family of
        Inl err \<Rightarrow> (Inl (Error err), w1)
      | Inr taskDefinitionArns \<Rightarrow>
          (case (if \<not> transientTask then stopEcsTasks e cluster family w1 else (None, w1)) of
             (Some err, w2) \<Rightarrow> (Inl err, w2)
           | (None, w2) \<Rightarrow>
               (case taskDefinitionArns of
                  [] \<Rightarrow> (Inl Panic, w2)
                | a # _ \<Rightarrow> updateEcsTaskDefinition e a img w2)))"

text \<open>
  The update functions write \<open>task.Id\<close> through the pointer: the model returns the
  task, and with it the task set, the cluster and the layout, as they stand when the
  function returns or panics.
\<close>

definition updateEnvServiceTask ::
  "Ecs \<Rightarrow> Task \<Rightarrow> string \<Rightarrow> string \<Rightarrow> string \<Rightarrow> string \<Rightarrow> world
     \<Rightarrow> failure option \<times> Task \<times> world" where
  "updateEnvServiceTask e task cluster service taskSetRepo commitHash w =
     (let taskRepo = (if length (Task_Repo task) > 0 then Task_Repo task else taskSetRepo) in
      case updateEcsService e cluster service (taskRepo @ '':'' @ commitHash) (Task_Temp task) w of
        (Inl err, w1) \<Rightarrow> (Some err, task, w1)
      | (Inr newId, w1) \<Rightarrow> (None, task\<lparr>Task_Id := newId\<rparr>, w1))"

definition updateEnvTask ::
  "Ecs \<Rightarrow> Task \<Rightarrow> string \<Rightarrow> string \<Rightarrow> string \<Rightarrow> string \<Rightarrow> world
     \<Rightarrow> failure option \<times> Task \<times> world" where
  "updateEnvTask e task cluster taskName taskSetRepo commitHash w =
     (let taskRepo = (if length (Task_Repo task) > 0 then Task_Repo task else taskSetRepo) in
      case updateEcsTask e cluster taskName (taskRepo @ '':'' @ commitHash) (Task_Temp task) w of
        (Inl err, w1) \<Rightarrow> (Some err, task, w1)
      | (Inr newId, w1) \<Rightarrow> (None, task\<lparr>Task_Id := newId\<rparr>, w1))"

text \<open>
  The body of the loop of \<open>updateEnvTaskSet\<close> for one entry of the map, and the
  loop. The loop returns at the first entry whose update fails; the entries after it
  are not visited.
\<close>

definition updateEnvTaskSet_body ::
  "Ecs \<Rightarrow> string \<Rightarrow> DeployType \<Rightarrow> string \<Rightarrow> string \<Rightarrow> string \<Rightarrow> string \<Rightarrow> Task \<Rightarrow> world
     \<Rightarrow> failure option \<times> Task \<times> world" where
  "updateEnvTaskSet_body e repo deployType cluster clusterRepo commitHash taskSetName task w =
     (let taskSetRepo = (if length repo > 0 then repo else clusterRepo) in
      case deployType of
        DeployType_Service \<Rightarrow>
          updateEnvServiceTask e task cluster taskSetName taskSetRepo commitHash w
      | DeployType_Task \<Rightarrow>
          updateEnvTask e task cluster taskSetName taskSetRepo commitHash w
      | DeployType_other s \<Rightarrow>
          (Some (Error (''updateTaskSet: invalid deploy type: '' @ s)), task, w))"

fun updateEnvTaskSet_range ::
  "Ecs \<Rightarrow> string \<Rightarrow> (string \<times> Task) list \<Rightarrow> DeployType \<Rightarrow> string \<Rightarrow> string \<Rightarrow> string \<Rightarrow> world
     \<Rightarrow> failure option \<times> (string \<times> Task) list \<times> world" where
  "updateEnvTaskSet_range e repo [] deployType cluster clusterRepo commitHash w = (None, [], w)"
| "updateEnvTaskSet_range e repo ((taskSetName, task) # rest) deployType cluster clusterRepo
       commitHash w =
     (case updateEnvTaskSet_body e repo deployType cluster clusterRepo commitHash
             taskSetName task w of
        (Some err, task1, w1) \<Rightarrow> (Some err, (taskSetName, task1) # rest, w1)
      | (None, task1, w1) \<Rightarrow>
          (case updateEnvTaskSet_range e repo rest deployType cluster clusterRepo commitHash w1 of
             (r, rest1, w2) \<Rightarrow> (r, (taskSetName, task1) # rest1, w2)))"

definition updateEnvTaskSet ::
  "Ecs \<Rightarrow> TaskSet option \<Rightarrow> DeployType \<Rightarrow> string \<Rightarrow> string \<Rightarrow> string \<Rightarrow> world
     \<Rightarrow> failure option \<times> TaskSet option \<times> world" where
  "updateEnvTaskSet e taskSet deployType cluster clusterRepo commitHash w =
     (case taskSet of
        None \<Rightarrow> (None, None, w)
      | Some ts \<Rightarrow>
          (case updateEnvTaskSet_range e (TaskSet_Repo ts) (TaskSet_Tasks ts) deployType
                  cluster clusterRepo commitHash w of
             (r, tasks1, w1) \<Rightarrow> (r, Some (ts\<lparr>TaskSet_Tasks := tasks1\<rparr>), w1)))"

definition updateEnvCluster ::
  "Ecs \<Rightarrow> Cluster \<Rightarrow> string \<Rightarrow> string \<Rightarrow> string \<Rightarrow> world \<Rightarrow> failure option \<times> Cluster \<times> world" where
  "updateEnvCluster e cluster clusterName clusterRepo commitHash w =
     (case updateEnvTaskSet e (Cluster_ServiceTasks cluster) DeployType_Service clusterName
             clusterRepo commitHash w of
        (Some err, st1, w1) \<Rightarrow> (Some err, cluster\<lparr>Cluster_ServiceTasks := st1\<rparr>, w1)
      | (None, st1, w1) \<Rightarrow>
          (case updateEnvTaskSet e (Cluster_Tasks cluster) DeployType_Task clusterName
                  clusterRepo commitHash w1 of
             (r, t1, w2) \<Rightarrow>
               (r, cluster\<lparr>Cluster_ServiceTasks := st1, Cluster_Tasks := t1\<rparr>, w2)))"

fun UpdateEnv_range ::
  "Ecs \<Rightarrow> string \<Rightarrow> (string \<times> Cluster) list \<Rightarrow> string \<Rightarrow> world
     \<Rightarrow> failure option \<times> (string \<times> Cluster) list \<times> world" where
  "UpdateEnv_range e repo [] commitHash w = (None, [], w)"
| "UpdateEnv_range e repo ((clusterName, cluster) # rest) commitHash w =
     (let clusterRepo = (if length (Cluster_Repo cluster) > 0 then Cluster_Repo cluster else repo) in
      case updateEnvCluster e cluster clusterName clusterRepo commitHash w of
        (Some err, cluster1, w1) \<Rightarrow> (Some err, (clusterName, cluster1) # rest, w1)
      | (None, cluster1, w1) \<Rightarrow>
          (case UpdateEnv_range e repo rest commitHash w1 of
             (r, rest1, w2) \<Rightarrow> (r, (clusterName, cluster1) # rest1, w2)))"

definition UpdateEnv ::
  "Ecs \<Rightarrow> Layout \<Rightarrow> string \<Rightarrow> world \<Rightarrow> failure option \<times> Layout \<times> world" where
  "UpdateEnv e layout commitHash w =
     (case UpdateEnv_range e (Layout_Repo layout) (Layout_Clusters layout) commitHash w of
        (r, clusters1, w1) \<Rightarrow> (r, layout\<lparr>Layout_Clusters := clusters1\<rparr>, w1))"

subsection \<open>Topology resolution\<close>

text \<open>
  \<open>layout.Clusters[clusterName].ServiceTasks.Tasks[taskName] = &manager.Task{}\<close>, the
  statement of the production branches. Both lookups succeed where \<open>PopulateEnvLayout\<close>
  uses it: the cluster and its service tasks were written three lines above.
\<close>

definition Layout_add_ServiceTask :: "Layout \<Rightarrow> string \<Rightarrow> string \<Rightarrow> Layout" where
  "Layout_add_ServiceTask layout clusterName taskName =
     layout\<lparr>Layout_Clusters :=
       AList.map_entry clusterName
         (\<lambda>c. c\<lparr>Cluster_ServiceTasks :=
                  map_option
                    (\<lambda>ts. ts\<lparr>TaskSet_Tasks := AList.update taskName Task_zero (TaskSet_Tasks ts)\<rparr>)
                    (Cluster_ServiceTasks c)\<rparr>)
         (Layout_Clusters layout)\<rparr>"

text \<open>A cluster of services only, none of them with a field set.\<close>

definition service_cluster :: "string list \<Rightarrow> Cluster" where
  "service_cluster names =
     \<lparr>Cluster_Repo = [],
      Cluster_ServiceTasks =
        Some \<lparr>TaskSet_Repo = [], TaskSet_Tasks = map (\<lambda>n. (n, Task_zero)) names\<rparr>,
      Cluster_Tasks = None\<rparr>"

text \<open>
  \<open>ENV\<close> is what \<open>os.Getenv("ENV")\<close> answers during the call; \<open>e.env\<close> was read from
  the same variable when the driver was made.
\<close>

definition PopulateEnvLayout :: "Ecs \<Rightarrow> string \<Rightarrow> DeployComponent \<Rightarrow> string + Layout" where
  "PopulateEnvLayout e ENV component =
     (let globalPrefix = ''ceramic'';
          privateCluster = globalPrefix @ ''-'' @ ENV;
          publicCluster = globalPrefix @ ''-'' @ ENV @ ''-ex'';
          casCluster = globalPrefix @ ''-'' @ ENV @ ''-cas''
      in case component of
        DeployComponent_Ceramic \<Rightarrow>
          (let layout =
                 \<lparr>Layout_Repo = ''ceramic-'' @ ENV,
                  Layout_Clusters =
                    [(privateCluster, service_cluster [privateCluster @ ''-'' @ ''node'']),
                     (publicCluster,
                      service_cluster [publicCluster @ ''-'' @ ''node'',
                                       publicCluster @ ''-'' @ ''gateway'']),
                     (casCluster, service_cluster [casCluster @ ''-'' @ ''node''])]\<rparr>
           in Inr (if env e = EnvType_Prod
                   then Layout_add_ServiceTask
                          (Layout_add_ServiceTask layout publicCluster
                             (globalPrefix @ ''-'' @ ''elp-1-1-node''))
                          publicCluster (globalPrefix @ ''-'' @ ''elp-1-2-node'')
                   else layout))
      | DeployComponent_Ipfs \<Rightarrow>
          (let layout =
                 \<lparr>Layout_Repo = ''go-ipfs-'' @ ENV,
                  Layout_Clusters =
                    [(privateCluster, service_cluster [privateCluster @ ''-'' @ ''ipfs-nd'']),
                     (publicCluster,
                      service_cluster [publicCluster @ ''-'' @ ''ipfs-nd'',
                                       publicCluster @ ''-'' @ ''ipfs-gw'']),
                     (casCluster, service_cluster [casCluster @ ''-'' @ ''ipfs-nd''])]\<rparr>
           in Inr (if env e = EnvType_Prod
                   then Layout_add_ServiceTask
                          (Layout_add_ServiceTask layout publicCluster
                             (globalPrefix @ ''-'' @ ''elp-1-1-ipfs-nd''))
                          publicCluster (globalPrefix @ ''-'' @ ''elp-1-2-ipfs-nd'')
                   else layout))
      | DeployComponent_Cas \<Rightarrow>
          Inr \<lparr>Layout_Repo = ''ceramic-'' @ ENV @ ''-cas'',
               Layout_Clusters =
                 [(casCluster,
                   \<lparr>Cluster_Repo = [],
                    Cluster_ServiceTasks =
                      Some \<lparr>TaskSet_Repo = [],
                            TaskSet_Tasks =
                              [(casCluster @ ''-'' @ ''api'', Task_zero),
                               (casCluster @ ''-'' @ ''scheduler'', Task_zero)]\<rparr>,
                    Cluster_Tasks =
                      Some \<lparr>TaskSet_Repo = [],
                            TaskSet_Tasks =
                              [(casCluster @ ''-'' @ ''anchor'',
                                \<lparr>Task_Repo = ''ceramic-'' @ ENV @ ''-cas-runner'',
                                 Task_Temp = True, Task_Id = []\<rparr>)]\<rparr>\<rparr>)]\<rparr>
      | DeployComponent_other s \<Rightarrow> Inl (''deployJob: unexpected component: '' @ s))"

section \<open>The deploy job (package jobs, deploy.go)\<close>

text \<open>
  Modelled from the spec: the stages of a job (\<open>manager.JobStage\<close>, a string type
  whose declaration is outside the sources at hand). \<open>JobStage_other s\<close> is any stage
  that the code does not name.
\<close>

datatype JobStage =
    JobStage_Queued | JobStage_Started | JobStage_Failed | JobStage_Completed
  | JobStage_other string

text \<open>
  A value of type \<open>interface{}\<close>, as far as the job tells values apart: nil, a string,
  a \<open>map[string]interface{}\<close>, a \<open>map[manager.DeployType]interface{}\<close>, or a value
  of any other type. Maps are in the order in which \<open>range\<close> visits them.
\<close>

datatype dyn =
    DNil
  | DString string
  | DStringMap "(string \<times> dyn) list"
  | DTypeMap "(DeployType \<times> dyn) list"
  | DOther

text \<open>
  Modelled from the spec: \<open>manager.JobState\<close>, with the three fields the job uses. A
  time is a number of nanoseconds. A nil \<open>Params\<close> reads as the empty map.
\<close>

record JobState =
  Stage :: JobStage
  Ts :: int
  Params :: "string \<rightharpoonup> dyn"

text \<open>
  The constants and the function of package \<open>manager\<close> that the job names and whose
  declarations are outside the sources at hand are parameters of the model.
\<close>

record manager_decls =
  JobParam_Component :: string
  JobParam_Sha :: string
  JobParam_Error :: string
  DefaultFailureTime :: int
  Error_Timeout :: dyn
  PrintJob :: "JobState \<Rightarrow> string"

definition LayoutParam :: string where
  "LayoutParam = ''layout''"

text \<open>
  The calls the job makes to its collaborators (\<open>manager.Deployment\<close>,
  \<open>manager.Database\<close>, \<open>manager.Notifs\<close>), recorded oldest first. A collaborator
  answers from the calls made before and the call's arguments, and leaves the maps it
  is handed as they are. \<open>NotifyJob\<close> returns nothing, and what the two hash updates
  answer only decides a line of the log, so the job's notifier has no field.
\<close>

datatype job_call =
    Ev_PopulateLayout string
  | Ev_GetRegistryUri string
  | Ev_UpdateService string string string
  | Ev_UpdateTask string string
  | Ev_CheckService string string string
  | Ev_UpdateBuildHash string string
  | Ev_UpdateDeployHash string string
  | Ev_NotifyJob JobState
  | Ev_UpdateJob JobState

type_synonym trace = "job_call list"

record Deployment =
  d_PopulateLayout :: "trace \<Rightarrow> string \<Rightarrow> string + dyn"
  d_GetRegistryUri :: "trace \<Rightarrow> string \<Rightarrow> string + string"
  d_UpdateService :: "trace \<Rightarrow> string \<Rightarrow> string \<Rightarrow> string \<Rightarrow> string + string"
  d_UpdateTask :: "trace \<Rightarrow> string \<Rightarrow> string \<Rightarrow> string + string"
  d_CheckService :: "trace \<Rightarrow> string \<Rightarrow> string \<Rightarrow> string \<Rightarrow> string + bool"

record Database =
  db_UpdateBuildHash :: "trace \<Rightarrow> string \<Rightarrow> string \<Rightarrow> string option"
  db_UpdateDeployHash :: "trace \<Rightarrow> string \<Rightarrow> string \<Rightarrow> string option"
  db_UpdateJob :: "trace \<Rightarrow> JobState \<Rightarrow> string option"

record deployJob =
  state :: JobState
  db :: Database
  d :: Deployment
  component :: string
  sha :: string
  registryUri :: string

subsection \<open>DeployJob\<close>

definition DeployJob ::
  "manager_decls \<Rightarrow> Database \<Rightarrow> Deployment \<Rightarrow> JobState \<Rightarrow> trace
     \<Rightarrow> (string + deployJob) \<times> trace" where
  "DeployJob K db0 d0 jobState w =
     (case Params jobState (JobParam_Component K) of
        Some (DString component0) \<Rightarrow>
          (case Params jobState (JobParam_Sha K) of
             Some (DString sha0) \<Rightarrow>
               (let c = component0; w1 = w @ [Ev_PopulateLayout c] in
                case d_PopulateLayout d0 w c of
                  Inl err \<Rightarrow> (Inl err, w1)
                | Inr clusterLayout \<Rightarrow>
                    (let w2 = w1 @ [Ev_GetRegistryUri c] in
                     case d_GetRegistryUri d0 w1 c of
                       Inl err \<Rightarrow> (Inl err, w2)
                     | Inr registryUri0 \<Rightarrow>
                         (let jobState1 =
                                (case Params jobState LayoutParam of
                                   None \<Rightarrow>
                                     jobState\<lparr>Params :=
                                       (Params jobState)(LayoutParam \<mapsto> clusterLayout)\<rparr>
                                 | Some _ \<Rightarrow> jobState)
                          in (Inr \<lparr>state = jobState1, db = db0, d = d0, component = c,
                                   sha = sha0, registryUri = registryUri0\<rparr>, w2))))
           | _ \<Rightarrow> (Inl ''deployJob: missing sha'', w))
      | _ \<Rightarrow> (Inl ''deployJob: missing component (ceramic, ipfs, cas)'', w))"

subsection \<open>updateCluster\<close>

text \<open>
  The three nested loops of \<open>updateCluster\<close>, innermost first. Each returns the map it
  ranges over as the loop leaves it: the identifiers are stored into the map while it
  is ranged over. A type assertion on a value of another type panics.
\<close>

fun updateCluster_services ::
  "Deployment \<Rightarrow> string \<Rightarrow> string \<Rightarrow> (string \<times> dyn) list \<Rightarrow> trace
     \<Rightarrow> failure option \<times> (string \<times> dyn) list \<times> trace" where
  "updateCluster_services d0 cluster img [] w = (None, [], w)"
| "updateCluster_services d0 cluster img ((service, v) # rest) w =
     (let w1 = w @ [Ev_UpdateService cluster service img] in
      case d_UpdateService d0 w cluster service img of
        Inl err \<Rightarrow> (Some (Error err), (service, v) # rest, w1)
      | Inr newId \<Rightarrow>
          (case updateCluster_services d0 cluster img rest w1 of
             (r, rest1, w2) \<Rightarrow> (r, (service, DString newId) # rest1, w2)))"

fun updateCluster_tasks ::
  "Deployment \<Rightarrow> string \<Rightarrow> (string \<times> dyn) list \<Rightarrow> trace
     \<Rightarrow> failure option \<times> (string \<times> dyn) list \<times> trace" where
  "updateCluster_tasks d0 img [] w = (None, [], w)"
| "updateCluster_tasks d0 img ((task, v) # rest) w =
     (let w1 = w @ [Ev_UpdateTask task img] in
      case d_UpdateTask d0 w task img of
        Inl err \<Rightarrow> (Some (Error err), (task, v) # rest, w1)
      | Inr newId \<Rightarrow>
          (case updateCluster_tasks d0 img rest w1 of
             (r, rest1, w2) \<Rightarrow> (r, (task, DString newId) # rest1, w2)))"

fun updateCluster_types ::
  "Deployment \<Rightarrow> string \<Rightarrow> string \<Rightarrow> (DeployType \<times> dyn) list \<Rightarrow> trace
     \<Rightarrow> failure option \<times> (DeployType \<times> dyn) list \<times> trace" where
  "updateCluster_types d0 cluster img [] w = (None, [], w)"
| "updateCluster_types d0 cluster img ((deployType, deployLayout) # rest) w =
     (case deployType of
        DeployType_Service \<Rightarrow>
          (case deployLayout of
             DStringMap m \<Rightarrow>
               (case updateCluster_services d0 cluster img m w of
                  (Some err, m1, w1) \<Rightarrow> (Some err, (deployType, DStringMap m1) # rest, w1)
                | (None, m1, w1) \<Rightarrow>
                    (case updateCluster_types d0 cluster img rest w1 of
                       (r, rest1, w2) \<Rightarrow> (r, (deployType, DStringMap m1) # rest1, w2)))
           | _ \<Rightarrow> (Some Panic, (deployType, deployLayout) # rest, w))
      | DeployType_Task \<Rightarrow>
          (case deployLayout of
             DStringMap m \<Rightarrow>
               (case updateCluster_tasks d0 img m w of
                  (Some err, m1, w1) \<Rightarrow> (Some err, (deployType, DStringMap m1) # rest, w1)
                | (None, m1, w1) \<Rightarrow>
                    (case updateCluster_types d0 cluster img rest w1 of
                       (r, rest1, w2) \<Rightarrow> (r, (deployType, DStringMap m1) # rest1, w2)))
           | _ \<Rightarrow> (Some Panic, (deployType, deployLayout) # rest, w))
      | DeployType_other s \<Rightarrow>
          (Some (Error (''updateCluster: invalid deploy type: '' @ s)),
           (deployType, deployLayout) # rest, w))"

fun updateCluster_clusters ::
  "Deployment \<Rightarrow> string \<Rightarrow> (string \<times> dyn) list \<Rightarrow> trace
     \<Rightarrow> failure option \<times> (string \<times> dyn) list \<times> trace" where
  "updateCluster_clusters d0 img [] w = (None, [], w)"
| "updateCluster_clusters d0 img ((cluster, typeLayout) # rest) w =
     (case typeLayout of
        DTypeMap tm \<Rightarrow>
          (case updateCluster_types d0 cluster img tm w of
             (Some err, tm1, w1) \<Rightarrow> (Some err, (cluster, DTypeMap tm1) # rest, w1)
           | (None, tm1, w1) \<Rightarrow>
               (case updateCluster_clusters d0 img rest w1 of
                  (r, rest1, w2) \<Rightarrow> (r, (cluster, DTypeMap tm1) # rest1, w2)))
      | _ \<Rightarrow> (Some Panic, (cluster, typeLayout) # rest, w))"

text \<open>\<open>updateCluster\<close> returns its error and the parameters of the job as it leaves them.\<close>

definition updateCluster ::
  "deployJob \<Rightarrow> trace \<Rightarrow> failure option \<times> (string \<rightharpoonup> dyn) \<times> trace" where
  "updateCluster j w =
     (let img = registryUri j @ '':'' @ sha j in
      case Params (state j) LayoutParam of
        Some (DStringMap layout) \<Rightarrow>
          (case updateCluster_clusters (d j) img layout w of
             (r, layout1, w1) \<Rightarrow> (r, (Params (state j))(LayoutParam \<mapsto> DStringMap layout1), w1))
      | _ \<Rightarrow> (Some Panic, Params (state j), w))"

subsection \<open>checkCluster\<close>

text \<open>
  In the three loops of \<open>checkCluster\<close>, \<open>Inr True\<close> is a loop that ran to its end and
  \<open>Inr False\<close> is \<open>return false, nil\<close>.
\<close>

fun checkCluster_services ::
  "Deployment \<Rightarrow> string \<Rightarrow> (string \<times> dyn) list \<Rightarrow> trace \<Rightarrow> (failure + bool) \<times> trace" where
  "checkCluster_services d0 cluster [] w = (Inr True, w)"
| "checkCluster_services d0 cluster ((service, v) # rest) w =
     (case v of
        DString taskId \<Rightarrow>
          (let w1 = w @ [Ev_CheckService cluster service taskId] in
           case d_CheckService d0 w cluster service taskId of
             Inl err \<Rightarrow> (Inl (Error err), w1)
           | Inr deployed \<Rightarrow>
               if \<not> deployed then (Inr False, w1)
               else checkCluster_services d0 cluster rest w1)
      | _ \<Rightarrow> (Inl Panic, w))"

fun checkCluster_types ::
  "Deployment \<Rightarrow> string \<Rightarrow> (DeployType \<times> dyn) list \<Rightarrow> trace \<Rightarrow> (failure + bool) \<times> trace" where
  "checkCluster_types d0 cluster [] w = (Inr True, w)"
| "checkCluster_types d0 cluster ((deployType, deployLayout) # rest) w =
     (case deployType of
        DeployType_Service \<Rightarrow>
          (case deployLayout of
             DStringMap m \<Rightarrow>
               (case checkCluster_services d0 cluster m w of
                  (Inr True, w1) \<Rightarrow> checkCluster_types d0 cluster rest w1
                | (r, w1) \<Rightarrow> (r, w1))
           | _ \<Rightarrow> (Inl Panic, w))
      | DeployType_Task \<Rightarrow> checkCluster_types d0 cluster rest w
      | DeployType_other s \<Rightarrow>
          (Inl (Error (''checkCluster: invalid deploy type: '' @ s)), w))"

fun checkCluster_clusters ::
  "Deployment \<Rightarrow> (string \<times> dyn) list \<Rightarrow> trace \<Rightarrow> (failure + bool) \<times> trace" where
  "checkCluster_clusters d0 [] w = (Inr True, w)"
| "checkCluster_clusters d0 ((cluster, typeLayout) # rest) w =
     (case typeLayout of
        DTypeMap tm \<Rightarrow>
          (case checkCluster_types d0 cluster tm w of
             (Inr True, w1) \<Rightarrow> checkCluster_clusters d0 rest w1
           | (r, w1) \<Rightarrow> (r, w1))
      | _ \<Rightarrow> (Inl Panic, w))"

definition checkCluster :: "deployJob \<Rightarrow> trace \<Rightarrow> (failure + bool) \<times> trace" where
  "checkCluster j w =
     (case Params (state j) LayoutParam of
        Some (DStringMap layout) \<Rightarrow> checkCluster_clusters (d j) layout w
      | _ \<Rightarrow> (Inl Panic, w))"

subsection \<open>AdvanceJob\<close>

text \<open>A call of \<open>AdvanceJob\<close> returns a state and an error, or panics.\<close>

datatype outcome = Returned JobState "string option" | Panicked

text \<open>
  The last three lines of \<open>AdvanceJob\<close>: notify for a started, failed or completed
  job, then return the state with what \<open>UpdateJob\<close> answers.
\<close>

definition AdvanceJob_end :: "deployJob \<Rightarrow> JobState \<Rightarrow> trace \<Rightarrow> outcome \<times> trace" where
  "AdvanceJob_end j st w =
     (let w1 = (if Stage st = JobStage_Started \<or> Stage st = JobStage_Failed
                   \<or> Stage st = JobStage_Completed
                then w @ [Ev_NotifyJob st] else w)
      in (Returned st (db_UpdateJob (db j) w1 st), w1 @ [Ev_UpdateJob st]))"

text \<open>
  \<open>now\<close> is what \<open>time.Now()\<close> answers. The receiver is a copy of the job, so the
  stage is written to the copy that is returned; the parameters are a map, written in
  place.
\<close>

definition AdvanceJob :: "manager_decls \<Rightarrow> deployJob \<Rightarrow> int \<Rightarrow> trace \<Rightarrow> outcome \<times> trace" where
  "AdvanceJob K j now w =
     (if Stage (state j) = JobStage_Queued then
        (case updateCluster j w of
           (Some Panic, params1, w1) \<Rightarrow> (Panicked, w1)
         | (Some (Error err), params1, w1) \<Rightarrow>
             AdvanceJob_end j
               ((state j)\<lparr>Stage := JobStage_Failed,
                          Params := params1(JobParam_Error K \<mapsto> DString err)\<rparr>) w1
         | (None, params1, w1) \<Rightarrow>
             AdvanceJob_end j
               ((state j)\<lparr>Stage := JobStage_Started, Params := params1\<rparr>)
               (w1 @ [Ev_UpdateBuildHash (component j) (sha j)]))
      else if now - DefaultFailureTime K > Ts (state j) then
        AdvanceJob_end j
          ((state j)\<lparr>Stage := JobStage_Failed,
                     Params := (Params (state j))(JobParam_Error K \<mapsto> Error_Timeout K)\<rparr>) w
      else if Stage (state j) = JobStage_Started then
        (case checkCluster j w of
           (Inl Panic, w1) \<Rightarrow> (Panicked, w1)
         | (Inl (Error err), w1) \<Rightarrow>
             AdvanceJob_end j
               ((state j)\<lparr>Stage := JobStage_Failed,
                          Params := (Params (state j))(JobParam_Error K \<mapsto> DString err)\<rparr>) w1
         | (Inr running, w1) \<Rightarrow>
             if running then
               AdvanceJob_end j ((state j)\<lparr>Stage := JobStage_Completed\<rparr>)
                 (w1 @ [Ev_UpdateDeployHash (component j) (sha j)])
             else (Returned (state j) None, w1))
      else (Returned (state j)
              (Some (''deployJob: unexpected state: '' @ PrintJob K (state j))), w))"

section \<open>The update phase in the words of the specification\<close>

text \<open>
  The effective repository of a task as the specification words it: the task's own if
  set, else the task set's, else the cluster's, else the layout's.
\<close>

definition effectiveRepo :: "Layout \<Rightarrow> Cluster \<Rightarrow> TaskSet \<Rightarrow> Task \<Rightarrow> string" where
  "effectiveRepo layout cluster taskSet task =
     (if Task_Repo task \<noteq> [] then Task_Repo task
      else if TaskSet_Repo taskSet \<noteq> [] then TaskSet_Repo taskSet
      else if Cluster_Repo cluster \<noteq> [] then Cluster_Repo cluster
      else Layout_Repo layout)"

text \<open>
  The update phase as the specification words it: for every cluster, every task of
  its service tasks is updated by the service update and every task of its plain tasks
  by the task update, with the effective repository, the tag and the task's transient
  flag; the revision that comes back is stored in the task; the first failure ends the
  phase. \<open>update\<close> is the update operation of the kind of the task set.
\<close>

fun UpdateLayout_tasks ::
  "(string \<Rightarrow> string \<Rightarrow> string \<Rightarrow> bool \<Rightarrow> world \<Rightarrow> (failure + string) \<times> world)
     \<Rightarrow> Layout \<Rightarrow> string \<Rightarrow> Cluster \<Rightarrow> TaskSet \<Rightarrow> string \<Rightarrow> (string \<times> Task) list \<Rightarrow> world
     \<Rightarrow> failure option \<times> (string \<times> Task) list \<times> world" where
  "UpdateLayout_tasks update layout clusterName cluster taskSet imageTag [] w = (None, [], w)"
| "UpdateLayout_tasks update layout clusterName cluster taskSet imageTag ((name, task) # rest) w =
     (case update clusterName name
             (effectiveRepo layout cluster taskSet task @ '':'' @ imageTag) (Task_Temp task) w of
        (Inl err, w1) \<Rightarrow> (Some err, (name, task) # rest, w1)
      | (Inr revision, w1) \<Rightarrow>
          (case UpdateLayout_tasks update layout clusterName cluster taskSet imageTag rest w1 of
             (r, rest1, w2) \<Rightarrow> (r, (name, task\<lparr>Task_Id := revision\<rparr>) # rest1, w2)))"

definition UpdateLayout_taskSet ::
  "(string \<Rightarrow> string \<Rightarrow> string \<Rightarrow> bool \<Rightarrow> world \<Rightarrow> (failure + string) \<times> world)
     \<Rightarrow> Layout \<Rightarrow> string \<Rightarrow> Cluster \<Rightarrow> TaskSet option \<Rightarrow> string \<Rightarrow> world
     \<Rightarrow> failure option \<times> TaskSet option \<times> world" where
  "UpdateLayout_taskSet update layout clusterName cluster taskSet imageTag w =
     (case taskSet of
        None \<Rightarrow> (None, None, w)
      | Some ts \<Rightarrow>
          (case UpdateLayout_tasks update layout clusterName cluster ts imageTag
                  (TaskSet_Tasks ts) w of
             (r, tasks1, w1) \<Rightarrow> (r, Some (ts\<lparr>TaskSet_Tasks := tasks1\<rparr>), w1)))"

fun UpdateLayout_clusters ::
  "Ecs \<Rightarrow> Layout \<Rightarrow> string \<Rightarrow> (string \<times> Cluster) list \<Rightarrow> world
     \<Rightarrow> failure option \<times> (string \<times> Cluster) list \<times> world" where
  "UpdateLayout_clusters e layout imageTag [] w = (None, [], w)"
| "UpdateLayout_clusters e layout imageTag ((clusterName, cluster) # rest) w =
     (case UpdateLayout_taskSet (updateEcsService e) layout clusterName cluster
             (Cluster_ServiceTasks cluster) imageTag w of
        (Some err, st1, w1) \<Rightarrow>
          (Some err, (clusterName, cluster\<lparr>Cluster_ServiceTasks := st1\<rparr>) # rest, w1)
      | (None, st1, w1) \<Rightarrow>
          (case UpdateLayout_taskSet (updateEcsTask e) layout clusterName cluster
                  (Cluster_Tasks cluster) imageTag w1 of
             (Some err, t1, w2) \<Rightarrow>
               (Some err,
                (clusterName, cluster\<lparr>Cluster_ServiceTasks := st1, Cluster_Tasks := t1\<rparr>) # rest,
                w2)
           | (None, t1, w2) \<Rightarrow>
               (case UpdateLayout_clusters e layout imageTag rest w2 of
                  (r, rest1, w3) \<Rightarrow>
                    (r, (clusterName,
                         cluster\<lparr>Cluster_ServiceTasks := st1, Cluster_Tasks := t1\<rparr>) # rest1,
                     w3))))"

definition UpdateLayout :: "Ecs \<Rightarrow> Layout \<Rightarrow> string \<Rightarrow> world \<Rightarrow> failure option \<times> Layout \<times> world" where
  "UpdateLayout e layout imageTag w =
     (case UpdateLayout_clusters e layout imageTag (Layout_Clusters layout) w of
        (r, clusters1, w1) \<Rightarrow> (r, layout\<lparr>Layout_Clusters := clusters1\<rparr>, w1))"

section \<open>What the properties observe\<close>

text \<open>
  The force-stops among the calls made to the platform, and the calls that persist
  the state of a job among the calls made to the collaborators.
\<close>

fun is_StopTask :: "ecs_call \<Rightarrow> bool" where
  "is_StopTask (Call_StopTask taskArn cluster) = True"
| "is_StopTask c = False"

definition force_stops :: "world \<Rightarrow> ecs_call list" where
  "force_stops w = filter is_StopTask w"

fun is_UpdateJob :: "job_call \<Rightarrow> bool" where
  "is_UpdateJob (Ev_UpdateJob st) = True"
| "is_UpdateJob c = False"

definition persisted :: "trace \<Rightarrow> job_call list" where
  "persisted w = filter is_UpdateJob w"

section \<open>Concrete platforms, layouts and jobs\<close>

text \<open>
  A platform on which the service \<open>ceramic-dev-cas-api\<close> runs a task of definition
  \<open>rev-2\<close> and every other service still runs its task of \<open>rev-1\<close>, none of
  \<open>rev-2\<close>.
\<close>

definition platform_one_behind :: EcsClient where
  "platform_one_behind =
     \<lparr>DescribeServices = (\<lambda>w cluster service.
        Inr \<lparr>Output_Failures = [],
             Output_Services =
               [\<lparr>Service_TaskDefinition = Some ''rev-2'',
                 Service_Deployments =
                   (if service = ''ceramic-dev-cas-api''
                    then [\<lparr>Deployment_TaskDefinition = Some ''rev-2'',
                           Deployment_RunningCount = 1\<rparr>]
                    else [\<lparr>Deployment_TaskDefinition = Some ''rev-2'',
                           Deployment_RunningCount = 0\<rparr>,
                          \<lparr>Deployment_TaskDefinition = Some ''rev-1'',
                           Deployment_RunningCount = 1\<rparr>])\<rparr>]\<rparr>),
      DescribeTaskDefinition = (\<lambda>w a. Inl ''no such definition''),
      RegisterTaskDefinition = (\<lambda>w t tag. Inl ''not allowed''),
      UpdateService = (\<lambda>w c s t. None),
      ListTaskDefinitions = (\<lambda>w f. Inl ''not allowed''),
      ListTasks = (\<lambda>w c f. Inr []),
      StopTask = (\<lambda>w t c. None),
      DescribeTasks = (\<lambda>w c ts. Inr [])\<rparr>"

definition ecs_one_behind :: Ecs where
  "ecs_one_behind =
     \<lparr>ecsClient = platform_one_behind, env = EnvType_other ''dev'', ecrUri = ''registry/''\<rparr>"

text \<open>The two services of the cas layout after an update that stamped \<open>rev-2\<close>.\<close>

definition layout_cas_started :: Layout where
  "layout_cas_started =
     \<lparr>Layout_Repo = ''ceramic-dev-cas'',
      Layout_Clusters =
        [(''ceramic-dev-cas'',
          \<lparr>Cluster_Repo = [],
           Cluster_ServiceTasks =
             Some \<lparr>TaskSet_Repo = [],
                   TaskSet_Tasks =
                     [(''ceramic-dev-cas-api'', Task_zero\<lparr>Task_Id := ''rev-2''\<rparr>),
                      (''ceramic-dev-cas-scheduler'', Task_zero\<lparr>Task_Id := ''rev-2''\<rparr>)]\<rparr>,
           Cluster_Tasks = None\<rparr>)]\<rparr>"

text \<open>
  A platform on which every update succeeds with the new definition \<open>rev-2\<close>, a
  task \<open>task-1\<close> runs in every family, and the update of the service
  \<open>ceramic-dev-cas-scheduler\<close> fails.
\<close>

definition taskdef_rev1 :: TaskDefinition where
  "taskdef_rev1 =
     \<lparr>TaskDef_ContainerDefinitions = [\<lparr>Container_Image = Some ''registry/old:000'', Container_Rest = ''main''\<rparr>],
      TaskDef_Family = Some ''family'', TaskDef_Settings = ''cpu 1024''\<rparr>"

definition platform_scheduler_fails :: EcsClient where
  "platform_scheduler_fails =
     \<lparr>DescribeServices = (\<lambda>w cluster service.
        Inr \<lparr>Output_Failures = [],
             Output_Services =
               [\<lparr>Service_TaskDefinition = Some ''rev-1'', Service_Deployments = []\<rparr>]\<rparr>),
      DescribeTaskDefinition = (\<lambda>w a. Inr taskdef_rev1),
      RegisterTaskDefinition = (\<lambda>w t tag. Inr (Some ''rev-2'')),
      UpdateService = (\<lambda>w c s t.
        if s = ''ceramic-dev-cas-scheduler'' then Some ''service not active'' else None),
      ListTaskDefinitions = (\<lambda>w f. Inr [''rev-1'']),
      ListTasks = (\<lambda>w c f. Inr [''task-1'']),
      StopTask = (\<lambda>w t c. None),
      DescribeTasks = (\<lambda>w c ts. Inr [Some ''RUNNING''])\<rparr>"

definition ecs_scheduler_fails :: Ecs where
  "ecs_scheduler_fails =
     \<lparr>ecsClient = platform_scheduler_fails, env = EnvType_other ''dev'', ecrUri = ''registry/''\<rparr>"

definition cluster_cas_dev :: Cluster where
  "cluster_cas_dev =
     \<lparr>Cluster_Repo = [],
      Cluster_ServiceTasks =
        Some \<lparr>TaskSet_Repo = [],
              TaskSet_Tasks =
                [(''ceramic-dev-cas-api'', Task_zero),
                 (''ceramic-dev-cas-scheduler'', Task_zero)]\<rparr>,
      Cluster_Tasks =
        Some \<lparr>TaskSet_Repo = [],
              TaskSet_Tasks =
                [(''ceramic-dev-cas-anchor'',
                  \<lparr>Task_Repo = ''ceramic-dev-cas-runner'',
                   Task_Temp = True, Task_Id = []\<rparr>)]\<rparr>\<rparr>"

definition layout_cas_dev :: Layout where
  "layout_cas_dev =
     \<lparr>Layout_Repo = ''ceramic-dev-cas'', Layout_Clusters = [(''ceramic-dev-cas'', cluster_cas_dev)]\<rparr>"

text \<open>
  The calls of an update of the cas layout on that platform: those of the update of
  the api service, and all of them up to the failing call.
\<close>

definition registration :: "string \<Rightarrow> ecs_call" where
  "registration img =
     Call_RegisterTaskDefinition
       (taskdef_rev1\<lparr>TaskDef_ContainerDefinitions :=
                       [\<lparr>Container_Image = Some img, Container_Rest = ''main''\<rparr>]\<rparr>)
       (EnvType_other ''dev'')"

definition calls_api_updated :: world where
  "calls_api_updated =
     [Call_DescribeServices ''ceramic-dev-cas'' ''ceramic-dev-cas-api'',
      Call_DescribeTaskDefinition ''rev-1'',
      registration ''registry/ceramic-dev-cas:abc123'',
      Call_UpdateService ''ceramic-dev-cas'' ''ceramic-dev-cas-api'' ''rev-2'',
      Call_ListTasks ''ceramic-dev-cas'' ''ceramic-dev-cas-api'',
      Call_StopTask ''task-1'' ''ceramic-dev-cas'']"

definition calls_scheduler_failed :: world where
  "calls_scheduler_failed =
     calls_api_updated @
     [Call_DescribeServices ''ceramic-dev-cas'' ''ceramic-dev-cas-scheduler'',
      Call_DescribeTaskDefinition ''rev-1'',
      registration ''registry/ceramic-dev-cas:abc123'',
      Call_UpdateService ''ceramic-dev-cas'' ''ceramic-dev-cas-scheduler'' ''rev-2'']"

definition services_cas_dev :: TaskSet where
  "services_cas_dev =
     \<lparr>TaskSet_Repo = [],
      TaskSet_Tasks =
        [(''ceramic-dev-cas-api'', Task_zero), (''ceramic-dev-cas-scheduler'', Task_zero)]\<rparr>"

text \<open>
  The declarations of package \<open>manager\<close>, the collaborators and a job of the cas
  component for the examples. On this deployment the api service has converged and no
  other; the job's layout carries the revision \<open>rev-2\<close> for every unit.
\<close>

fun JobStage_string :: "JobStage \<Rightarrow> string" where
  "JobStage_string JobStage_Queued = ''queued''"
| "JobStage_string JobStage_Started = ''started''"
| "JobStage_string JobStage_Failed = ''failed''"
| "JobStage_string JobStage_Completed = ''completed''"
| "JobStage_string (JobStage_other s) = s"

definition manager_example :: manager_decls where
  "manager_example =
     \<lparr>JobParam_Component = ''component'', JobParam_Sha = ''sha'', JobParam_Error = ''error'',
      DefaultFailureTime = 10800000000000, Error_Timeout = DString ''Timeout'',
      PrintJob = (\<lambda>st. JobStage_string (Stage st))\<rparr>"

definition layout_cas_param :: "dyn \<Rightarrow> dyn" where
  "layout_cas_param v =
     DStringMap
       [(''ceramic-dev-cas'',
         DTypeMap
           [(DeployType_Service,
             DStringMap [(''ceramic-dev-cas-api'', v), (''ceramic-dev-cas-scheduler'', v)]),
            (DeployType_Task, DStringMap [(''ceramic-dev-cas-anchor'', v)])])]"

definition deployment_example :: Deployment where
  "deployment_example =
     \<lparr>d_PopulateLayout = (\<lambda>w c. Inr (layout_cas_param DNil)),
      d_GetRegistryUri = (\<lambda>w c. Inr ''registry/ceramic-dev-cas''),
      d_UpdateService = (\<lambda>w cluster service img. Inr ''rev-2''),
      d_UpdateTask = (\<lambda>w task img. Inr ''rev-2''),
      d_CheckService = (\<lambda>w cluster service taskId. Inr (service = ''ceramic-dev-cas-api''))\<rparr>"

definition database_example :: Database where
  "database_example =
     \<lparr>db_UpdateBuildHash = (\<lambda>w c s. None), db_UpdateDeployHash = (\<lambda>w c s. None),
      db_UpdateJob = (\<lambda>w st. None)\<rparr>"

definition jobState_example :: "JobStage \<Rightarrow> JobState" where
  "jobState_example stage =
     \<lparr>Stage = stage, Ts = 0,
      Params = [''component'' \<mapsto> DString ''cas'', ''sha'' \<mapsto> DString ''abc123'',
                ''layout'' \<mapsto> layout_cas_param (DString ''rev-2'')]\<rparr>"

definition job_example :: "JobStage \<Rightarrow> deployJob" where
  "job_example stage =
     \<lparr>state = jobState_example stage, db = database_example, d = deployment_example,
      component = ''cas'', sha = ''abc123'', registryUri = ''registry/ceramic-dev-cas''\<rparr>"

lemmas ex_defs = ecs_scheduler_fails_def platform_scheduler_fails_def taskdef_rev1_def
  layout_cas_dev_def cluster_cas_dev_def Task_zero_def registration_def calls_api_updated_def
  calls_scheduler_failed_def services_cas_dev_def

lemmas upd_defs = UpdateEnv_def updateEnvCluster_def updateEnvTaskSet_def updateEnvTaskSet_body_def
  updateEnvServiceTask_def updateEnvTask_def updateEcsService_def updateEcsTask_def
  updateEcsTaskDefinition_def describeEcsService_def stopEcsTasks_def Let_def

lemmas job_defs = job_example_def jobState_example_def manager_example_def database_example_def
  deployment_example_def layout_cas_param_def LayoutParam_def

section \<open>The check phase of the driver\<close>

text \<open>
  C1 (the code at a failing input). The claim: the check phase reports converged only
  if every service of every cluster has a deployment of its stored revision with a
  running task. \<open>CheckEnv\<close> does not do that: on the layout of two services, visited
  with \<open>ceramic-dev-cas-api\<close> first, it reports converged after one call, for the
  first service, although the check of the second service, \<open>checkEcsService\<close> for
  \<open>ceramic-dev-cas-scheduler\<close> and its stored revision, answers false.
\<close>

theorem CheckEnv_returns_after_first_service:
  "CheckEnv ecs_one_behind layout_cas_started [] =
     (Inr True, [Call_DescribeServices ''ceramic-dev-cas'' ''ceramic-dev-cas-api''])
   \<and> fst (checkEcsService ecs_one_behind ''ceramic-dev-cas'' ''ceramic-dev-cas-scheduler''
            ''rev-2'' []) = Inr False"
  by (simp add: CheckEnv_def layout_cas_started_def checkEnvCluster_def checkEnvTaskSet_def
      checkEcsService_def ecs_one_behind_def platform_one_behind_def Task_zero_def)

text \<open>
  The loop of \<open>checkCluster\<close> in deploy.go is the one that asks for every service:
  when it runs to its end, every entry holds a string and \<open>CheckService\<close> has
  answered true for it.
\<close>

lemma checkCluster_services_all_deployed:
  "checkCluster_services d0 cluster m w = (Inr True, w') \<Longrightarrow> (service, v) \<in> set m \<Longrightarrow>
   \<exists>taskId w0. v = DString taskId \<and> d_CheckService d0 w0 cluster service taskId = Inr True"
proof (induction m arbitrary: w)
  case Nil
  then show ?case by simp
next
  case (Cons a m)
  obtain service1 v1 where a: "a = (service1, v1)" by (cases a)
  from Cons.prems Cons.IH show ?case
    by (auto simp: a Let_def split: dyn.splits sum.splits if_splits)
qed

section \<open>Topology resolution\<close>

text \<open>
  C8. For the component cas in the environment dev, \<open>PopulateEnvLayout\<close> answers a
  layout of exactly one cluster, \<open>ceramic-dev-cas\<close>, whose service tasks are exactly
  \<open>ceramic-dev-cas-api\<close> and \<open>ceramic-dev-cas-scheduler\<close> and whose plain tasks are
  exactly \<open>ceramic-dev-cas-anchor\<close>, a transient task.
\<close>

theorem PopulateEnvLayout_cas_dev:
  "PopulateEnvLayout e ''dev'' DeployComponent_Cas =
     Inr \<lparr>Layout_Repo = ''ceramic-dev-cas'',
          Layout_Clusters =
            [(''ceramic-dev-cas'',
              \<lparr>Cluster_Repo = [],
               Cluster_ServiceTasks =
                 Some \<lparr>TaskSet_Repo = [],
                       TaskSet_Tasks =
                         [(''ceramic-dev-cas-api'', Task_zero),
                          (''ceramic-dev-cas-scheduler'', Task_zero)]\<rparr>,
               Cluster_Tasks =
                 Some \<lparr>TaskSet_Repo = [],
                       TaskSet_Tasks =
                         [(''ceramic-dev-cas-anchor'',
                           \<lparr>Task_Repo = ''ceramic-dev-cas-runner'',
                            Task_Temp = True, Task_Id = []\<rparr>)]\<rparr>\<rparr>)]\<rparr>"
  by (simp add: PopulateEnvLayout_def)

section \<open>The update phase of the driver\<close>

subsection \<open>The repository of a task\<close>

lemma updateEnvTaskSet_range_service_spec:
  assumes cr: "cr = (if length (Cluster_Repo c) > 0 then Cluster_Repo c else Layout_Repo layout)"
  shows "updateEnvTaskSet_range e (TaskSet_Repo ts) tasks DeployType_Service cn cr h w =
         UpdateLayout_tasks (updateEcsService e) layout cn c ts h tasks w"
proof -
  have body: "updateEnvTaskSet_body e (TaskSet_Repo ts) DeployType_Service cn cr h name task v =
        (case updateEcsService e cn name (effectiveRepo layout c ts task @ '':'' @ h)
                (Task_Temp task) v of
           (Inl err, w1) \<Rightarrow> (Some err, task, w1)
         | (Inr revision, w1) \<Rightarrow> (None, task\<lparr>Task_Id := revision\<rparr>, w1))" for name task v
    using cr by (simp add: updateEnvTaskSet_body_def updateEnvServiceTask_def effectiveRepo_def)
  show ?thesis
  proof (induction tasks arbitrary: w)
    case Nil
    show ?case by simp
  next
    case (Cons a tasks)
    obtain name task where a: "a = (name, task)" by (cases a)
    show ?case
      by (simp add: a Cons.IH body split: prod.splits sum.splits option.splits)
  qed
qed

lemma updateEnvTaskSet_range_task_spec:
  assumes cr: "cr = (if length (Cluster_Repo c) > 0 then Cluster_Repo c else Layout_Repo layout)"
  shows "updateEnvTaskSet_range e (TaskSet_Repo ts) tasks DeployType_Task cn cr h w =
         UpdateLayout_tasks (updateEcsTask e) layout cn c ts h tasks w"
proof -
  have body: "updateEnvTaskSet_body e (TaskSet_Repo ts) DeployType_Task cn cr h name task v =
        (case updateEcsTask e cn name (effectiveRepo layout c ts task @ '':'' @ h)
                (Task_Temp task) v of
           (Inl err, w1) \<Rightarrow> (Some err, task, w1)
         | (Inr revision, w1) \<Rightarrow> (None, task\<lparr>Task_Id := revision\<rparr>, w1))" for name task v
    using cr by (simp add: updateEnvTaskSet_body_def updateEnvTask_def effectiveRepo_def)
  show ?thesis
  proof (induction tasks arbitrary: w)
    case Nil
    show ?case by simp
  next
    case (Cons a tasks)
    obtain name task where a: "a = (name, task)" by (cases a)
    show ?case
      by (simp add: a Cons.IH body split: prod.splits sum.splits option.splits)
  qed
qed

lemma updateEnvCluster_spec:
  assumes cr: "cr = (if length (Cluster_Repo c) > 0 then Cluster_Repo c else Layout_Repo layout)"
  shows "updateEnvCluster e c cn cr h w =
   (case UpdateLayout_taskSet (updateEcsService e) layout cn c (Cluster_ServiceTasks c) h w of
      (Some err, st1, w1) \<Rightarrow> (Some err, c\<lparr>Cluster_ServiceTasks := st1\<rparr>, w1)
    | (None, st1, w1) \<Rightarrow>
        (case UpdateLayout_taskSet (updateEcsTask e) layout cn c (Cluster_Tasks c) h w1 of
           (r, t1, w2) \<Rightarrow> (r, c\<lparr>Cluster_ServiceTasks := st1, Cluster_Tasks := t1\<rparr>, w2)))"
  unfolding updateEnvCluster_def updateEnvTaskSet_def UpdateLayout_taskSet_def
    updateEnvTaskSet_range_service_spec [OF cr] updateEnvTaskSet_range_task_spec [OF cr]
  by (simp split: option.splits)

lemma UpdateEnv_range_spec:
  "UpdateEnv_range e (Layout_Repo layout) cs h w = UpdateLayout_clusters e layout h cs w"
proof (induction cs arbitrary: w)
  case Nil
  show ?case by simp
next
  case (Cons a cs)
  obtain cn c where a: "a = (cn, c)" by (cases a)
  show ?case
    unfolding a UpdateEnv_range.simps UpdateLayout_clusters.simps Let_def
      updateEnvCluster_spec [OF refl] Cons.IH
    by (simp split: prod.splits option.splits)
qed

text \<open>
  C3. The update phase of the driver is the update phase of the specification: every
  unit is updated with the image of its effective repository, which is the task's
  repository if non-empty, else the task set's if non-empty, else the cluster's if
  non-empty, else the layout's. The two agree on the error, on the layout they leave
  and on every call made to the platform.
\<close>

theorem UpdateEnv_uses_effectiveRepo:
  "UpdateEnv e layout commitHash w = UpdateLayout e layout commitHash w"
  by (simp add: UpdateEnv_def UpdateLayout_def UpdateEnv_range_spec)

text \<open>
  The theorem at the cas layout, on the platform where the scheduler's update fails:
  the images registered are those of the layout's repository.
\<close>

theorem UpdateEnv_uses_effectiveRepo_witness:
  "UpdateLayout ecs_scheduler_fails layout_cas_dev ''abc123'' [] =
     (Some (Error ''service not active''),
      layout_cas_dev\<lparr>Layout_Clusters :=
        [(''ceramic-dev-cas'',
          cluster_cas_dev\<lparr>Cluster_ServiceTasks :=
            Some (services_cas_dev\<lparr>TaskSet_Tasks :=
                    [(''ceramic-dev-cas-api'', Task_zero\<lparr>Task_Id := ''rev-2''\<rparr>),
                     (''ceramic-dev-cas-scheduler'', Task_zero)]\<rparr>)\<rparr>)]\<rparr>,
      calls_scheduler_failed)"
proof -
  have "UpdateEnv ecs_scheduler_fails layout_cas_dev ''abc123'' [] =
     (Some (Error ''service not active''),
      layout_cas_dev\<lparr>Layout_Clusters :=
        [(''ceramic-dev-cas'',
          cluster_cas_dev\<lparr>Cluster_ServiceTasks :=
            Some (services_cas_dev\<lparr>TaskSet_Tasks :=
                    [(''ceramic-dev-cas-api'', Task_zero\<lparr>Task_Id := ''rev-2''\<rparr>),
                     (''ceramic-dev-cas-scheduler'', Task_zero)]\<rparr>)\<rparr>)]\<rparr>,
      calls_scheduler_failed)"
    by (simp add: ex_defs upd_defs)
  with UpdateEnv_uses_effectiveRepo [of ecs_scheduler_fails layout_cas_dev "''abc123''" "[]"]
  show ?thesis by simp
qed

subsection \<open>Transient units\<close>

lemma describeEcsService_force_stops:
  "describeEcsService e cluster service w = (r, w1) \<Longrightarrow> force_stops w1 = force_stops w"
  by (auto simp: describeEcsService_def force_stops_def Let_def split: sum.splits if_splits)

lemma updateEcsTaskDefinition_force_stops:
  "updateEcsTaskDefinition e taskDefArn img w = (r, w1) \<Longrightarrow> force_stops w1 = force_stops w"
  by (auto simp: updateEcsTaskDefinition_def force_stops_def Let_def
      split: sum.splits list.splits option.splits)

lemma updateEcsService_transient:
  assumes "updateEcsService e cluster service img True w = (r, w1)"
  shows "force_stops w1 = force_stops w"
proof (cases "describeEcsService e cluster service w")
  case (Pair r0 v0)
  note d = this
  have v0: "force_stops v0 = force_stops w"
    using d by (rule describeEcsService_force_stops)
  show ?thesis
  proof (cases r0)
    case (Inl err)
    with assms d v0 show ?thesis by (simp add: updateEcsService_def)
  next
    case (Inr out)
    show ?thesis
    proof (cases "Output_Services out")
      case Nil
      with assms d v0 Inr show ?thesis by (simp add: updateEcsService_def)
    next
      case (Cons s ss)
      show ?thesis
      proof (cases "Service_TaskDefinition s")
        case None
        with assms d v0 Inr Cons show ?thesis by (simp add: updateEcsService_def)
      next
        case (Some taskDefArn)
        obtain r2 v2 where u: "updateEcsTaskDefinition e taskDefArn img v0 = (r2, v2)"
          by (cases "updateEcsTaskDefinition e taskDefArn img v0")
        have v2: "force_stops v2 = force_stops w"
          using updateEcsTaskDefinition_force_stops [OF u] v0 by simp
        have app: "force_stops (v2 @ [Call_UpdateService cluster service a]) = force_stops w" for a
          using v2 by (simp add: force_stops_def)
        from assms d Inr Cons Some u v2 app show ?thesis
          by (auto simp: updateEcsService_def Let_def
              split: sum.splits failure.splits option.splits)
      qed
    qed
  qed
qed

lemma updateEcsTask_transient:
  assumes "updateEcsTask e cluster family img True w = (r, w1)"
  shows "force_stops w1 = force_stops w"
proof -
  have app: "force_stops (w @ [Call_ListTaskDefinitions family]) = force_stops w"
    by (simp add: force_stops_def)
  from assms show ?thesis
    by (auto simp: updateEcsTask_def Let_def app
        split: sum.splits list.splits
        dest!: updateEcsTaskDefinition_force_stops)
qed

text \<open>
  C6. For a task with \<open>Temp\<close> set, neither the update of a service nor the update
  of a plain task stops a running task: the force-stops among the calls are those
  made before.
\<close>

theorem transient_unit_never_stopped:
  assumes "Task_Temp task"
  shows "force_stops (snd (snd (updateEnvServiceTask e task cluster service taskSetRepo commitHash w)))
           = force_stops w
       \<and> force_stops (snd (snd (updateEnvTask e task cluster taskName taskSetRepo commitHash w)))
           = force_stops w"
proof
  let ?img = "(if length (Task_Repo task) > 0 then Task_Repo task else taskSetRepo) @ '':'' @ commitHash"
  obtain r1 v1 where s: "updateEcsService e cluster service ?img True w = (r1, v1)"
    by (cases "updateEcsService e cluster service ?img True w")
  from updateEcsService_transient [OF s] s assms
  show "force_stops (snd (snd (updateEnvServiceTask e task cluster service taskSetRepo commitHash w)))
           = force_stops w"
    by (simp add: updateEnvServiceTask_def split: sum.splits)
next
  let ?img = "(if length (Task_Repo task) > 0 then Task_Repo task else taskSetRepo) @ '':'' @ commitHash"
  obtain r1 v1 where s: "updateEcsTask e cluster taskName ?img True w = (r1, v1)"
    by (cases "updateEcsTask e cluster taskName ?img True w")
  from updateEcsTask_transient [OF s] s assms
  show "force_stops (snd (snd (updateEnvTask e task cluster taskName taskSetRepo commitHash w)))
           = force_stops w"
    by (simp add: updateEnvTask_def split: sum.splits)
qed

text \<open>
  The theorem for a transient unit on a platform where a task runs in every family:
  the service is updated and the only force-stop is the one made before.
\<close>

theorem transient_unit_never_stopped_witness:
  "Task_Temp (Task_zero\<lparr>Task_Temp := True\<rparr>)
   \<and> snd (snd (updateEnvServiceTask ecs_scheduler_fails (Task_zero\<lparr>Task_Temp := True\<rparr>)
        ''ceramic-dev-cas'' ''ceramic-dev-cas-api'' ''ceramic-dev-cas'' ''abc123''
        [Call_StopTask ''task-0'' ''ceramic-dev-cas''])) =
       [Call_StopTask ''task-0'' ''ceramic-dev-cas'',
        Call_DescribeServices ''ceramic-dev-cas'' ''ceramic-dev-cas-api'',
        Call_DescribeTaskDefinition ''rev-1'',
        registration ''registry/ceramic-dev-cas:abc123'',
        Call_UpdateService ''ceramic-dev-cas'' ''ceramic-dev-cas-api'' ''rev-2'']
   \<and> force_stops (snd (snd (updateEnvServiceTask ecs_scheduler_fails (Task_zero\<lparr>Task_Temp := True\<rparr>)
        ''ceramic-dev-cas'' ''ceramic-dev-cas-api'' ''ceramic-dev-cas'' ''abc123''
        [Call_StopTask ''task-0'' ''ceramic-dev-cas'']))) = [Call_StopTask ''task-0'' ''ceramic-dev-cas'']
   \<and> force_stops (snd (snd (updateEnvTask ecs_scheduler_fails (Task_zero\<lparr>Task_Temp := True\<rparr>)
        ''ceramic-dev-cas'' ''ceramic-dev-cas-anchor'' ''ceramic-dev-cas'' ''abc123''
        [Call_StopTask ''task-0'' ''ceramic-dev-cas'']))) = [Call_StopTask ''task-0'' ''ceramic-dev-cas'']"
proof -
  have temp: "Task_Temp (Task_zero\<lparr>Task_Temp := True\<rparr>)" by simp
  have calls: "snd (snd (updateEnvServiceTask ecs_scheduler_fails (Task_zero\<lparr>Task_Temp := True\<rparr>)
        ''ceramic-dev-cas'' ''ceramic-dev-cas-api'' ''ceramic-dev-cas'' ''abc123''
        [Call_StopTask ''task-0'' ''ceramic-dev-cas''])) =
       [Call_StopTask ''task-0'' ''ceramic-dev-cas'',
        Call_DescribeServices ''ceramic-dev-cas'' ''ceramic-dev-cas-api'',
        Call_DescribeTaskDefinition ''rev-1'',
        registration ''registry/ceramic-dev-cas:abc123'',
        Call_UpdateService ''ceramic-dev-cas'' ''ceramic-dev-cas-api'' ''rev-2'']"
    by (simp add: ex_defs upd_defs)
  have "force_stops [Call_StopTask ''task-0'' ''ceramic-dev-cas''] = [Call_StopTask ''task-0'' ''ceramic-dev-cas'']"
    by (simp add: force_stops_def)
  with temp calls transient_unit_never_stopped [OF temp, of ecs_scheduler_fails "''ceramic-dev-cas''"
      "''ceramic-dev-cas-api''" "''ceramic-dev-cas''" "''abc123''"
      "[Call_StopTask ''task-0'' ''ceramic-dev-cas'']" "''ceramic-dev-cas-anchor''"]
  show ?thesis by simp
qed

subsection \<open>The first failure ends the phase\<close>

lemma updateEnvTaskSet_range_append:
  "updateEnvTaskSet_range e repo pre dt cn cr h w = (None, pre1, w1) \<Longrightarrow>
   updateEnvTaskSet_range e repo (pre @ rest) dt cn cr h w =
     (case updateEnvTaskSet_range e repo rest dt cn cr h w1 of
        (r, rest1, w2) \<Rightarrow> (r, pre1 @ rest1, w2))"
proof (induction pre arbitrary: w pre1)
  case Nil
  then show ?case by simp
next
  case (Cons a pre)
  obtain name task where a: "a = (name, task)" by (cases a)
  from Cons.prems Cons.IH show ?case
    by (auto simp: a split: prod.splits option.splits)
qed

lemma UpdateEnv_range_append:
  "UpdateEnv_range e repo cpre h w = (None, cpre1, w1) \<Longrightarrow>
   UpdateEnv_range e repo (cpre @ rest) h w =
     (case UpdateEnv_range e repo rest h w1 of
        (r, rest1, w2) \<Rightarrow> (r, cpre1 @ rest1, w2))"
proof (induction cpre arbitrary: w cpre1)
  case Nil
  then show ?case by simp
next
  case (Cons a cpre)
  obtain cn c where a: "a = (cn, c)" by (cases a)
  from Cons.prems Cons.IH show ?case
    by (auto simp: a Let_def split: prod.splits option.splits)
qed

lemma updateEnvServiceTask_failed:
  "updateEnvServiceTask e t cn n tr h w = (Some err, t1, w1) \<Longrightarrow> t1 = t"
  by (auto simp: updateEnvServiceTask_def Let_def split: prod.splits sum.splits)

lemma updateEnvTask_failed:
  "updateEnvTask e t cn n tr h w = (Some err, t1, w1) \<Longrightarrow> t1 = t"
  by (auto simp: updateEnvTask_def Let_def split: prod.splits sum.splits)

lemma updateEnvTaskSet_failure:
  assumes tasks: "TaskSet_Tasks ts = pre @ (n, t) # post"
    and pre: "updateEnvTaskSet_range e (TaskSet_Repo ts) pre dt cn cr h w = (None, pre1, w1)"
    and unit: "updateEnvTaskSet_body e (TaskSet_Repo ts) dt cn cr h n t w1 = (Some err, t, w2)"
  shows "updateEnvTaskSet e (Some ts) dt cn cr h w =
           (Some err, Some (ts\<lparr>TaskSet_Tasks := pre1 @ (n, t) # post\<rparr>), w2)"
  using updateEnvTaskSet_range_append [OF pre, of "(n, t) # post"] unit
  by (simp add: updateEnvTaskSet_def tasks)

lemma UpdateEnv_failure:
  assumes clusters: "Layout_Clusters layout = cpre @ (cn, c) # cpost"
    and cpre: "UpdateEnv_range e (Layout_Repo layout) cpre h w = (None, cpre1, w1)"
    and cl: "updateEnvCluster e c cn
               (if length (Cluster_Repo c) > 0 then Cluster_Repo c else Layout_Repo layout) h w1 =
             (Some err, c1, w2)"
  shows "UpdateEnv e layout h w =
           (Some err, layout\<lparr>Layout_Clusters := cpre1 @ (cn, c1) # cpost\<rparr>, w2)"
  using UpdateEnv_range_append [OF cpre, of "(cn, c) # cpost"] cl
  by (simp add: UpdateEnv_def clusters Let_def)

text \<open>
  What a successful run of the loop over a task set leaves: the same units, each with
  the identifier its update returned.
\<close>

lemma updateEnvTaskSet_body_stamps:
  "updateEnvTaskSet_body e repo dt cn cr h n t w = (None, t1, w1) \<Longrightarrow>
   \<exists>newId. t1 = t\<lparr>Task_Id := newId\<rparr>"
  by (auto simp: updateEnvTaskSet_body_def updateEnvServiceTask_def updateEnvTask_def Let_def
      split: DeployType.splits prod.splits sum.splits)

lemma updateEnvTaskSet_range_stamps:
  "updateEnvTaskSet_range e repo pre dt cn cr h w = (None, pre1, w1) \<Longrightarrow>
   list_all2 (\<lambda>(n, t) (n1, t1). n1 = n \<and> (\<exists>newId. t1 = t\<lparr>Task_Id := newId\<rparr>)) pre pre1"
proof (induction pre arbitrary: w pre1)
  case Nil
  then show ?case by simp
next
  case (Cons a pre)
  obtain name task where a: "a = (name, task)" by (cases a)
  obtain r t1 v where body: "updateEnvTaskSet_body e repo dt cn cr h name task w = (r, t1, v)"
    by (cases "updateEnvTaskSet_body e repo dt cn cr h name task w")
  obtain r2 rest1 v2 where rest: "updateEnvTaskSet_range e repo pre dt cn cr h v = (r2, rest1, v2)"
    by (cases "updateEnvTaskSet_range e repo pre dt cn cr h v")
  from Cons.prems have r: "r = None" and r2: "r2 = None" and v2: "v2 = w1"
    and pre1: "pre1 = (name, t1) # rest1"
    by (auto simp: a body rest split: option.splits)
  from body r obtain newId where "t1 = task\<lparr>Task_Id := newId\<rparr>"
    by (auto dest: updateEnvTaskSet_body_stamps)
  moreover have "list_all2 (\<lambda>(n, t) (n1, t1). n1 = n \<and> (\<exists>newId. t1 = t\<lparr>Task_Id := newId\<rparr>)) pre rest1"
    using rest r2 v2 by (intro Cons.IH) simp
  ultimately show ?case by (auto simp: a pre1)
qed

text \<open>
  C7. When the update of a unit fails, after the clusters before its cluster, the
  units before it in its task set and (for a plain task) the cluster's services have
  been updated, \<open>UpdateEnv\<close> returns that error, makes no call after the failing
  one, and leaves the layout with the identifiers written so far: the clusters and
  units updated before keep what the updates wrote, the failing unit and everything
  after it are as they were.
\<close>

theorem UpdateEnv_aborts_at_first_failure:
  "(Layout_Clusters layout = cpre @ (cn, c) # cpost
      \<and> UpdateEnv_range e (Layout_Repo layout) cpre h w = (None, cpre1, w1)
      \<and> cr = (if length (Cluster_Repo c) > 0 then Cluster_Repo c else Layout_Repo layout)
      \<and> Cluster_ServiceTasks c = Some ts
      \<and> TaskSet_Tasks ts = pre @ (n, t) # post
      \<and> updateEnvTaskSet_range e (TaskSet_Repo ts) pre DeployType_Service cn cr h w1
          = (None, pre1, w2)
      \<and> updateEnvServiceTask e t cn n
            (if length (TaskSet_Repo ts) > 0 then TaskSet_Repo ts else cr) h w2
          = (Some err, t1, w3)
    \<longrightarrow> UpdateEnv e layout h w =
          (Some err,
           layout\<lparr>Layout_Clusters :=
             cpre1 @ (cn, c\<lparr>Cluster_ServiceTasks :=
                               Some (ts\<lparr>TaskSet_Tasks := pre1 @ (n, t) # post\<rparr>)\<rparr>) # cpost\<rparr>,
           w3))
   \<and> (Layout_Clusters layout = cpre @ (cn, c) # cpost
      \<and> UpdateEnv_range e (Layout_Repo layout) cpre h w = (None, cpre1, w1)
      \<and> cr = (if length (Cluster_Repo c) > 0 then Cluster_Repo c else Layout_Repo layout)
      \<and> updateEnvTaskSet e (Cluster_ServiceTasks c) DeployType_Service cn cr h w1
          = (None, services1, w2)
      \<and> Cluster_Tasks c = Some ts
      \<and> TaskSet_Tasks ts = pre @ (n, t) # post
      \<and> updateEnvTaskSet_range e (TaskSet_Repo ts) pre DeployType_Task cn cr h w2
          = (None, pre1, w3)
      \<and> updateEnvTask e t cn n
            (if length (TaskSet_Repo ts) > 0 then TaskSet_Repo ts else cr) h w3
          = (Some err, t1, w4)
    \<longrightarrow> UpdateEnv e layout h w =
          (Some err,
           layout\<lparr>Layout_Clusters :=
             cpre1 @ (cn, c\<lparr>Cluster_ServiceTasks := services1,
                             Cluster_Tasks :=
                               Some (ts\<lparr>TaskSet_Tasks := pre1 @ (n, t) # post\<rparr>)\<rparr>) # cpost\<rparr>,
           w4))"
proof (intro conjI impI; elim conjE)
  assume clusters: "Layout_Clusters layout = cpre @ (cn, c) # cpost"
    and cpre: "UpdateEnv_range e (Layout_Repo layout) cpre h w = (None, cpre1, w1)"
    and cr: "cr = (if length (Cluster_Repo c) > 0 then Cluster_Repo c else Layout_Repo layout)"
    and set: "Cluster_ServiceTasks c = Some ts"
    and tasks: "TaskSet_Tasks ts = pre @ (n, t) # post"
    and pre: "updateEnvTaskSet_range e (TaskSet_Repo ts) pre DeployType_Service cn cr h w1
                = (None, pre1, w2)"
    and unit: "updateEnvServiceTask e t cn n
                 (if length (TaskSet_Repo ts) > 0 then TaskSet_Repo ts else cr) h w2
                = (Some err, t1, w3)"
  have t1: "t1 = t" using unit by (rule updateEnvServiceTask_failed)
  have body: "updateEnvTaskSet_body e (TaskSet_Repo ts) DeployType_Service cn cr h n t w2
                = (Some err, t, w3)"
    using unit t1 by (simp add: updateEnvTaskSet_body_def Let_def)
  have "updateEnvCluster e c cn cr h w1 =
          (Some err, c\<lparr>Cluster_ServiceTasks :=
                         Some (ts\<lparr>TaskSet_Tasks := pre1 @ (n, t) # post\<rparr>)\<rparr>, w3)"
    using updateEnvTaskSet_failure [OF tasks pre body]
    by (simp add: updateEnvCluster_def set)
  then show "UpdateEnv e layout h w =
          (Some err,
           layout\<lparr>Layout_Clusters :=
             cpre1 @ (cn, c\<lparr>Cluster_ServiceTasks :=
                               Some (ts\<lparr>TaskSet_Tasks := pre1 @ (n, t) # post\<rparr>)\<rparr>) # cpost\<rparr>,
           w3)"
    unfolding cr by (rule UpdateEnv_failure [OF clusters cpre])
next
  assume clusters: "Layout_Clusters layout = cpre @ (cn, c) # cpost"
    and cpre: "UpdateEnv_range e (Layout_Repo layout) cpre h w = (None, cpre1, w1)"
    and cr: "cr = (if length (Cluster_Repo c) > 0 then Cluster_Repo c else Layout_Repo layout)"
    and services: "updateEnvTaskSet e (Cluster_ServiceTasks c) DeployType_Service cn cr h w1
                     = (None, services1, w2)"
    and set: "Cluster_Tasks c = Some ts"
    and tasks: "TaskSet_Tasks ts = pre @ (n, t) # post"
    and pre: "updateEnvTaskSet_range e (TaskSet_Repo ts) pre DeployType_Task cn cr h w2
                = (None, pre1, w3)"
    and unit: "updateEnvTask e t cn n
                 (if length (TaskSet_Repo ts) > 0 then TaskSet_Repo ts else cr) h w3
                = (Some err, t1, w4)"
  have t1: "t1 = t" using unit by (rule updateEnvTask_failed)
  have body: "updateEnvTaskSet_body e (TaskSet_Repo ts) DeployType_Task cn cr h n t w3
                = (Some err, t, w4)"
    using unit t1 by (simp add: updateEnvTaskSet_body_def Let_def)
  have "updateEnvCluster e c cn cr h w1 =
          (Some err, c\<lparr>Cluster_ServiceTasks := services1,
                       Cluster_Tasks :=
                         Some (ts\<lparr>TaskSet_Tasks := pre1 @ (n, t) # post\<rparr>)\<rparr>, w4)"
    using updateEnvTaskSet_failure [OF tasks pre body] services
    by (simp add: updateEnvCluster_def set)
  then show "UpdateEnv e layout h w =
          (Some err,
           layout\<lparr>Layout_Clusters :=
             cpre1 @ (cn, c\<lparr>Cluster_ServiceTasks := services1,
                             Cluster_Tasks :=
                               Some (ts\<lparr>TaskSet_Tasks := pre1 @ (n, t) # post\<rparr>)\<rparr>) # cpost\<rparr>,
           w4)"
    unfolding cr by (rule UpdateEnv_failure [OF clusters cpre])
qed

text \<open>
  The theorem at the cas layout when the update of the scheduler, the second
  service, fails: the api service keeps \<open>rev-2\<close>, the scheduler and the anchor task
  are untouched, and the last call is the failing one.
\<close>

theorem UpdateEnv_aborts_at_first_failure_witness:
  "UpdateEnv ecs_scheduler_fails layout_cas_dev ''abc123'' [] =
     (Some (Error ''service not active''),
      layout_cas_dev\<lparr>Layout_Clusters :=
        [(''ceramic-dev-cas'',
          cluster_cas_dev\<lparr>Cluster_ServiceTasks :=
            Some (services_cas_dev\<lparr>TaskSet_Tasks :=
                    [(''ceramic-dev-cas-api'', Task_zero\<lparr>Task_Id := ''rev-2''\<rparr>),
                     (''ceramic-dev-cas-scheduler'', Task_zero)]\<rparr>)\<rparr>)]\<rparr>,
      calls_scheduler_failed)"
proof -
  have hyps:
    "Layout_Clusters layout_cas_dev = [] @ (''ceramic-dev-cas'', cluster_cas_dev) # []
     \<and> UpdateEnv_range ecs_scheduler_fails (Layout_Repo layout_cas_dev) [] ''abc123'' [] = (None, [], [])
     \<and> ''ceramic-dev-cas'' =
         (if length (Cluster_Repo cluster_cas_dev) > 0 then Cluster_Repo cluster_cas_dev
          else Layout_Repo layout_cas_dev)
     \<and> Cluster_ServiceTasks cluster_cas_dev = Some services_cas_dev
     \<and> TaskSet_Tasks services_cas_dev =
         [(''ceramic-dev-cas-api'', Task_zero)] @ (''ceramic-dev-cas-scheduler'', Task_zero) # []
     \<and> updateEnvTaskSet_range ecs_scheduler_fails (TaskSet_Repo services_cas_dev)
           [(''ceramic-dev-cas-api'', Task_zero)] DeployType_Service ''ceramic-dev-cas''
           ''ceramic-dev-cas'' ''abc123'' []
         = (None, [(''ceramic-dev-cas-api'', Task_zero\<lparr>Task_Id := ''rev-2''\<rparr>)], calls_api_updated)
     \<and> updateEnvServiceTask ecs_scheduler_fails Task_zero ''ceramic-dev-cas''
           ''ceramic-dev-cas-scheduler''
           (if length (TaskSet_Repo services_cas_dev) > 0 then TaskSet_Repo services_cas_dev
            else ''ceramic-dev-cas'') ''abc123'' calls_api_updated
         = (Some (Error ''service not active''), Task_zero, calls_scheduler_failed)"
    by (simp add: ex_defs upd_defs)
  from UpdateEnv_aborts_at_first_failure [THEN conjunct1, rule_format, OF hyps]
  show ?thesis by simp
qed

section \<open>The deploy job\<close>

subsection \<open>Stages that AdvanceJob does not expect\<close>

text \<open>
  C2 (as stated, refuted). A completed job whose time has run out is moved to the
  failed stage: the stage changes with the time elapsed.
\<close>

theorem AdvanceJob_unexpected_stage_counterexample:
  "Stage (state (job_example JobStage_Completed)) = JobStage_Completed
   \<and> fst (AdvanceJob manager_example (job_example JobStage_Completed) 10800000000001 []) =
       Returned ((state (job_example JobStage_Completed))
                   \<lparr>Stage := JobStage_Failed,
                    Params := (Params (state (job_example JobStage_Completed)))
                                (''error'' \<mapsto> DString ''Timeout'')\<rparr>) None"
  by (simp add: AdvanceJob_def AdvanceJob_end_def job_example_def jobState_example_def manager_example_def database_example_def)

text \<open>
  C2 (amended). For a job whose stage is neither queued nor started: when its time
  has not run out, \<open>AdvanceJob\<close> returns the state as it is with the error that names
  the unexpected state, and calls no collaborator; when its time has run out, it moves
  the job to the failed stage with the timeout error, notifies and persists.
\<close>

theorem AdvanceJob_unexpected_stage:
  assumes "Stage (state j) \<noteq> JobStage_Queued" and "Stage (state j) \<noteq> JobStage_Started"
  shows "AdvanceJob K j now w =
     (if now - DefaultFailureTime K > Ts (state j)
      then (let st = (state j)\<lparr>Stage := JobStage_Failed,
                                Params := (Params (state j))(JobParam_Error K \<mapsto> Error_Timeout K)\<rparr>
            in (Returned st (db_UpdateJob (db j) (w @ [Ev_NotifyJob st]) st),
                w @ [Ev_NotifyJob st, Ev_UpdateJob st]))
      else (Returned (state j)
              (Some (''deployJob: unexpected state: '' @ PrintJob K (state j))), w))"
  using assms by (simp add: AdvanceJob_def AdvanceJob_end_def Let_def)

text \<open>
A failed job within its time.
\<close>

theorem AdvanceJob_unexpected_stage_witness:
  "Stage (state (job_example JobStage_Failed)) \<noteq> JobStage_Queued
   \<and> Stage (state (job_example JobStage_Failed)) \<noteq> JobStage_Started
   \<and> AdvanceJob manager_example (job_example JobStage_Failed) 5 [] =
       (Returned (state (job_example JobStage_Failed))
          (Some ''deployJob: unexpected state: failed''), [])"
proof -
  have s: "Stage (state (job_example JobStage_Failed)) \<noteq> JobStage_Queued"
    "Stage (state (job_example JobStage_Failed)) \<noteq> JobStage_Started"
    by (simp_all add: job_defs)
  from AdvanceJob_unexpected_stage [OF s, of manager_example 5 "[]"] s
  show ?thesis by (simp add: job_defs)
qed

subsection \<open>The timeout of a started job\<close>

text \<open>
  C4. A started job for which more time than \<open>DefaultFailureTime\<close> has passed since
  its timestamp is moved to the failed stage with \<open>Error_Timeout\<close> recorded under
  \<open>JobParam_Error\<close>; the only calls are the notification and the update of the job,
  so the check of the cluster is not made.
\<close>

theorem AdvanceJob_started_timeout:
  assumes "Stage (state j) = JobStage_Started"
    and "now - Ts (state j) > DefaultFailureTime K"
  shows "AdvanceJob K j now w =
     (let st = (state j)\<lparr>Stage := JobStage_Failed,
                         Params := (Params (state j))(JobParam_Error K \<mapsto> Error_Timeout K)\<rparr>
      in (Returned st (db_UpdateJob (db j) (w @ [Ev_NotifyJob st]) st),
          w @ [Ev_NotifyJob st, Ev_UpdateJob st]))"
proof -
  from assms(2) have "now - DefaultFailureTime K > Ts (state j)" by arith
  with assms(1) show ?thesis
    by (simp add: AdvanceJob_def AdvanceJob_end_def Let_def)
qed

text \<open>
A started job, one nanosecond after its time has run out.
\<close>

theorem AdvanceJob_started_timeout_witness:
  "Stage (state (job_example JobStage_Started)) = JobStage_Started
   \<and> 10800000000001 - Ts (state (job_example JobStage_Started)) > DefaultFailureTime manager_example
   \<and> AdvanceJob manager_example (job_example JobStage_Started) 10800000000001 [] =
       (let st = (state (job_example JobStage_Started))
                   \<lparr>Stage := JobStage_Failed,
                    Params := (Params (state (job_example JobStage_Started)))
                                (''error'' \<mapsto> DString ''Timeout'')\<rparr>
        in (Returned st None, [Ev_NotifyJob st, Ev_UpdateJob st]))"
proof -
  have s: "Stage (state (job_example JobStage_Started)) = JobStage_Started"
    by (simp add: job_defs)
  have t: "10800000000001 - Ts (state (job_example JobStage_Started)) > DefaultFailureTime manager_example"
    by (simp add: job_defs)
  from AdvanceJob_started_timeout [OF s t, of "[]"] s t
  show ?thesis by (simp add: job_defs Let_def)
qed

subsection \<open>The timestamp\<close>

text \<open>
  C9. Whatever \<open>AdvanceJob\<close> returns, the state returned has the timestamp of the
  job's state.
\<close>

theorem AdvanceJob_keeps_Ts:
  assumes "AdvanceJob K j now w = (Returned st err, w')"
  shows "Ts st = Ts (state j)"
  using assms
  by (auto simp: AdvanceJob_def AdvanceJob_end_def Let_def
      split: if_splits prod.splits option.splits failure.splits sum.splits)

text \<open>
A queued job that is started.
\<close>

theorem AdvanceJob_keeps_Ts_witness:
  "AdvanceJob manager_example (job_example JobStage_Queued) 5 [] =
     (let st = (state (job_example JobStage_Queued))\<lparr>Stage := JobStage_Started\<rparr>
      in (Returned st None,
          [Ev_UpdateService ''ceramic-dev-cas'' ''ceramic-dev-cas-api''
             ''registry/ceramic-dev-cas:abc123'',
           Ev_UpdateService ''ceramic-dev-cas'' ''ceramic-dev-cas-scheduler''
             ''registry/ceramic-dev-cas:abc123'',
           Ev_UpdateTask ''ceramic-dev-cas-anchor'' ''registry/ceramic-dev-cas:abc123'',
           Ev_UpdateBuildHash ''cas'' ''abc123'', Ev_NotifyJob st, Ev_UpdateJob st]))
   \<and> Ts ((state (job_example JobStage_Queued))\<lparr>Stage := JobStage_Started\<rparr>) = 0"
proof -
  let ?st = "(state (job_example JobStage_Queued))\<lparr>Stage := JobStage_Started\<rparr>"
  let ?w = "[Ev_UpdateService ''ceramic-dev-cas'' ''ceramic-dev-cas-api''
             ''registry/ceramic-dev-cas:abc123'',
           Ev_UpdateService ''ceramic-dev-cas'' ''ceramic-dev-cas-scheduler''
             ''registry/ceramic-dev-cas:abc123'',
           Ev_UpdateTask ''ceramic-dev-cas-anchor'' ''registry/ceramic-dev-cas:abc123'',
           Ev_UpdateBuildHash ''cas'' ''abc123'', Ev_NotifyJob ?st, Ev_UpdateJob ?st]"
  have run: "AdvanceJob manager_example (job_example JobStage_Queued) 5 [] = (Returned ?st None, ?w)"
    by (simp add: AdvanceJob_def AdvanceJob_end_def updateCluster_def job_defs Let_def fun_upd_twist)
  have "Ts (state (job_example JobStage_Queued)) = 0" by (simp add: job_defs)
  with AdvanceJob_keeps_Ts [OF run] run show ?thesis by (simp add: Let_def)
qed

subsection \<open>Persistence\<close>

lemma checkCluster_services_persisted:
  "checkCluster_services d0 cluster m w = (r, w') \<Longrightarrow> persisted w' = persisted w"
proof (induction m arbitrary: w)
  case Nil
  then show ?case by simp
next
  case (Cons a m)
  obtain service v where a: "a = (service, v)" by (cases a)
  show ?case using Cons.prems Cons.IH
    by (auto simp: a persisted_def Let_def split: dyn.splits sum.splits if_splits)
qed

lemma checkCluster_types_persisted:
  "checkCluster_types d0 cluster tm w = (r, w') \<Longrightarrow> persisted w' = persisted w"
proof (induction tm arbitrary: w)
  case Nil
  then show ?case by simp
next
  case (Cons a tm)
  obtain deployType deployLayout where a: "a = (deployType, deployLayout)" by (cases a)
  show ?case using Cons.prems Cons.IH
    by (auto simp: a split: DeployType.splits dyn.splits prod.splits sum.splits bool.splits
        dest: checkCluster_services_persisted)
qed

lemma checkCluster_clusters_persisted:
  "checkCluster_clusters d0 layout w = (r, w') \<Longrightarrow> persisted w' = persisted w"
proof (induction layout arbitrary: w)
  case Nil
  then show ?case by simp
next
  case (Cons a layout)
  obtain cluster typeLayout where a: "a = (cluster, typeLayout)" by (cases a)
  show ?case using Cons.prems Cons.IH
    by (auto simp: a split: dyn.splits prod.splits sum.splits bool.splits
        dest: checkCluster_types_persisted)
qed

lemma checkCluster_persisted:
  "checkCluster j w = (r, w') \<Longrightarrow> persisted w' = persisted w"
  by (auto simp: checkCluster_def split: option.splits dyn.splits
      dest: checkCluster_clusters_persisted)

text \<open>
  C5 (as stated, refuted). For a completed job within its time \<open>AdvanceJob\<close>
  returns without a call: a second path that returns without persisting the state.
\<close>

theorem AdvanceJob_persists_counterexample:
  "Stage (state (job_example JobStage_Completed)) = JobStage_Completed
   \<and> AdvanceJob manager_example (job_example JobStage_Completed) 5 [] =
       (Returned (state (job_example JobStage_Completed))
          (Some ''deployJob: unexpected state: completed''), [])"
  by (simp add: AdvanceJob_def job_example_def jobState_example_def manager_example_def)

text \<open>
  C5 (amended). \<open>AdvanceJob\<close> returns without a persistence call on two paths: a
  started job within its time whose cluster has not converged, and a job within its
  time whose stage is neither queued nor started; on both the state returned is the
  job's. On every other path that returns, the last call is \<open>UpdateJob\<close> with the
  state returned, and the error returned is its answer.
\<close>

theorem AdvanceJob_persists:
  assumes "AdvanceJob K j now w = (Returned st err, w')"
  shows "if Stage (state j) \<noteq> JobStage_Queued
            \<and> \<not> now - DefaultFailureTime K > Ts (state j)
            \<and> (Stage (state j) = JobStage_Started \<longrightarrow> fst (checkCluster j w) = Inr False)
         then persisted w' = persisted w \<and> st = state j
         else (\<exists>w1. w' = w1 @ [Ev_UpdateJob st] \<and> err = db_UpdateJob (db j) w1 st)"
  using assms
  by (auto simp: AdvanceJob_def AdvanceJob_end_def Let_def
      split: if_splits prod.splits option.splits failure.splits sum.splits
      dest: checkCluster_persisted)

text \<open>
  A started job whose scheduler has not converged, within its time (no persistence
  call) and after it (the last call persists the state).
\<close>

theorem AdvanceJob_persists_witness:
  "AdvanceJob manager_example (job_example JobStage_Started) 5 [] =
     (Returned (state (job_example JobStage_Started)) None,
      [Ev_CheckService ''ceramic-dev-cas'' ''ceramic-dev-cas-api'' ''rev-2'',
       Ev_CheckService ''ceramic-dev-cas'' ''ceramic-dev-cas-scheduler'' ''rev-2''])
   \<and> persisted [Ev_CheckService ''ceramic-dev-cas'' ''ceramic-dev-cas-api'' ''rev-2'',
                 Ev_CheckService ''ceramic-dev-cas'' ''ceramic-dev-cas-scheduler'' ''rev-2''] = []
   \<and> (\<exists>st. AdvanceJob manager_example (job_example JobStage_Started) 10800000000001 [] =
              (Returned st None, [Ev_NotifyJob st] @ [Ev_UpdateJob st]))"
proof -
  let ?w = "[Ev_CheckService ''ceramic-dev-cas'' ''ceramic-dev-cas-api'' ''rev-2'',
       Ev_CheckService ''ceramic-dev-cas'' ''ceramic-dev-cas-scheduler'' ''rev-2'']"
  have chk: "checkCluster (job_example JobStage_Started) [] = (Inr False, ?w)"
    by (simp add: checkCluster_def job_defs)
  have run: "AdvanceJob manager_example (job_example JobStage_Started) 5 [] =
     (Returned (state (job_example JobStage_Started)) None, ?w)"
    by (simp add: AdvanceJob_def chk) (simp add: job_defs)
  have waiting: "persisted ?w = []"
    using AdvanceJob_persists [OF run] chk by (simp add: job_defs persisted_def)
  let ?st = "(state (job_example JobStage_Started))
                   \<lparr>Stage := JobStage_Failed,
                    Params := (Params (state (job_example JobStage_Started)))
                                (''error'' \<mapsto> DString ''Timeout'')\<rparr>"
  have late: "AdvanceJob manager_example (job_example JobStage_Started) 10800000000001 [] =
      (Returned ?st None, [Ev_NotifyJob ?st] @ [Ev_UpdateJob ?st])"
    by (simp add: AdvanceJob_def AdvanceJob_end_def job_defs)
  from run waiting late show ?thesis by blast
qed

subsection \<open>The layout of a resumed job\<close>

text \<open>
  C10. A job made by \<open>DeployJob\<close> from parameters that hold a layout has the state
  it was given, with that layout; the layout that \<open>PopulateLayout\<close> answers is stored
  only when the parameters hold none.
\<close>

theorem DeployJob_keeps_layout:
  assumes "DeployJob K db0 d0 jobState w = (Inr job, w')"
  shows "case Params jobState LayoutParam of
           Some v \<Rightarrow> state job = jobState
         | None \<Rightarrow>
             (\<exists>clusterLayout. d_PopulateLayout d0 w (component job) = Inr clusterLayout
                \<and> state job = jobState\<lparr>Params := (Params jobState)(LayoutParam \<mapsto> clusterLayout)\<rparr>)"
  using assms
  by (auto simp: DeployJob_def Let_def
      split: option.splits dyn.splits sum.splits)

text \<open>
  Parameters whose layout carries \<open>rev-2\<close> for every unit, while \<open>PopulateLayout\<close>
  answers the layout without identifiers.
\<close>

theorem DeployJob_keeps_layout_witness:
  "Params (jobState_example JobStage_Queued) LayoutParam = Some (layout_cas_param (DString ''rev-2''))
   \<and> d_PopulateLayout deployment_example [] ''cas'' = Inr (layout_cas_param DNil)
   \<and> DeployJob manager_example database_example deployment_example
        (jobState_example JobStage_Queued) [] =
       (Inr (job_example JobStage_Queued), [Ev_PopulateLayout ''cas'', Ev_GetRegistryUri ''cas''])
   \<and> state (job_example JobStage_Queued) = jobState_example JobStage_Queued"
proof -
  have p: "Params (jobState_example JobStage_Queued) LayoutParam = Some (layout_cas_param (DString ''rev-2''))"
    by (simp add: jobState_example_def LayoutParam_def)
  have f: "d_PopulateLayout deployment_example [] ''cas'' = Inr (layout_cas_param DNil)"
    by (simp add: deployment_example_def)
  have run: "DeployJob manager_example database_example deployment_example
        (jobState_example JobStage_Queued) [] =
       (Inr (job_example JobStage_Queued), [Ev_PopulateLayout ''cas'', Ev_GetRegistryUri ''cas''])"
    by (simp add: DeployJob_def manager_example_def jobState_example_def deployment_example_def
        job_example_def LayoutParam_def Let_def)
  from DeployJob_keeps_layout [OF run] p f run show ?thesis by simp
qed

end
